theory Spec2Isabelle
  imports Complex_Main "HOL-Library.Sublist" "HOL-Library.Word"
begin

section \<open>JavaScript values used by the service\<close>

text \<open>
  The service exists in two variants that share everything but the extraction provider:
  the tikwm variant (\<^verbatim>\<open>src/unnamed/part_000\<close>) and the yt-dlp variant
  (\<^verbatim>\<open>src/api/src/index.ts\<close>). Definitions that exist in both files carry the suffix
  \<open>_tikwm\<close> or \<open>_ytdlp\<close>; blocks that are textually the same in both files are
  modelled once.
\<close>

type_synonym bytes = "8 word list"

text \<open>A thrown JavaScript error: its \<^verbatim>\<open>name\<close> and its \<^verbatim>\<open>message\<close>.\<close>

datatype exn = Exn (exn_name: string) (exn_message: string)

definition new_Error :: "string \<Rightarrow> exn" where
  "new_Error msg = Exn ''Error'' msg"

text \<open>
  A possibly absent string (\<^verbatim>\<open>undefined\<close> is \<open>None\<close>), with JavaScript's truthiness and
  the \<^verbatim>\<open>||\<close> operator: the left operand when it is truthy, the right one otherwise.
\<close>

fun truthy :: "string option \<Rightarrow> bool" where
  "truthy None = False"
| "truthy (Some s) = (s \<noteq> [])"

definition or_else :: "string option \<Rightarrow> string option \<Rightarrow> string option" where
  "or_else a b = (if truthy a then a else b)"

text \<open>
  Numbers. Finite values are exact rationals (the rounding and the overflow of binary64
  are not modelled); the three special values of IEEE 754 are explicit, because they are
  what a division by zero produces. Division and multiplication are total, as in
  JavaScript: no operation on numbers throws.
\<close>

datatype jsnum = Num rat | PosInf | NegInf | NaN

fun js_div :: "jsnum \<Rightarrow> jsnum \<Rightarrow> jsnum" where
  "js_div (Num a) (Num b) =
     (if b = 0 then (if a = 0 then NaN else if 0 < a then PosInf else NegInf)
      else Num (a / b))"
| "js_div (Num a) PosInf = Num 0"
| "js_div (Num a) NegInf = Num 0"
| "js_div PosInf (Num b) = (if b < 0 then NegInf else PosInf)"
| "js_div NegInf (Num b) = (if b < 0 then PosInf else NegInf)"
| "js_div _ _ = NaN"

fun js_mul :: "jsnum \<Rightarrow> jsnum \<Rightarrow> jsnum" where
  "js_mul (Num a) (Num b) = Num (a * b)"
| "js_mul (Num a) PosInf = (if a = 0 then NaN else if 0 < a then PosInf else NegInf)"
| "js_mul (Num a) NegInf = (if a = 0 then NaN else if 0 < a then NegInf else PosInf)"
| "js_mul PosInf (Num b) = (if b = 0 then NaN else if 0 < b then PosInf else NegInf)"
| "js_mul NegInf (Num b) = (if b = 0 then NaN else if 0 < b then NegInf else PosInf)"
| "js_mul PosInf PosInf = PosInf"
| "js_mul NegInf NegInf = PosInf"
| "js_mul PosInf NegInf = NegInf"
| "js_mul NegInf PosInf = NegInf"
| "js_mul _ _ = NaN"

text \<open>Decimal rendering of a non-negative integer, as a template literal renders it.\<close>

definition digit_char :: "nat \<Rightarrow> char" where
  "digit_char d = ''0123456789'' ! (d mod 10)"

fun show_nat :: "nat \<Rightarrow> string" where
  "show_nat n = (if n < 10 then [digit_char n] else show_nat (n div 10) @ [digit_char n])"

declare show_nat.simps [simp del]

text \<open>
  \<^verbatim>\<open>Number.prototype.toFixed(d)\<close>: the special values render as their names; a finite
  value is rounded to \<open>d\<close> decimals (half away from zero on the magnitude) and keeps its
  sign. The exponent notation of magnitudes from \<open>10^21\<close> on is not modelled.
\<close>

definition pad_zeros :: "nat \<Rightarrow> string \<Rightarrow> string" where
  "pad_zeros k s = replicate (k - length s) (CHR ''0'') @ s"

definition toFixed :: "nat \<Rightarrow> jsnum \<Rightarrow> string" where
  "toFixed d x =
     (case x of
        NaN \<Rightarrow> ''NaN''
      | PosInf \<Rightarrow> ''Infinity''
      | NegInf \<Rightarrow> ''-Infinity''
      | Num q \<Rightarrow>
          (let n = nat \<lfloor>\<bar>q\<bar> * 10 ^ d + 1 / 2\<rfloor>;
               ds = pad_zeros (d + 1) (show_nat n);
               k = length ds - d
           in (if q < 0 then ''-'' else '''') @ take k ds @ (if d = 0 then '''' else ''.'' @ drop k ds)))"

section \<open>The world outside the process\<close>

text \<open>
  Paths are lists of components from the root, and \<^verbatim>\<open>path.join(a, b)\<close> appends a
  component.
\<close>

type_synonym path = "string list"

definition join :: "path \<Rightarrow> string \<Rightarrow> path" where
  "join dir name = dir @ [name]"

datatype node = File bytes | Dir

datatype level = Log | Warn | Err

text \<open>Outbound calls: every request that leaves the process is recorded, in order.\<close>

datatype call =
    TikwmApi string
  | MediaGet string
  | WhisperPost bytes string string
  | YtDlp "string list"

record world =
  fs :: "path \<Rightarrow> node option"
  now :: nat
  calls :: "call list"
  console :: "(level \<times> string) list"

datatype fs_op = Access | ReadFile | WriteFile | Mkdir | Unlink

datatype 'b parsed = ParseThrows exn | Parsed 'b

text \<open>
  What a \<^verbatim>\<open>fetch\<close> settles to: a rejection (transport error), or a response with its
  status, status text and body; the body of a response that arrived is read in full.
  \<^verbatim>\<open>response.ok\<close> is the status range 200 to 299.
\<close>

datatype 'b fetch_outcome = Rejects exn | Responds nat string 'b

definition response_ok :: "nat \<Rightarrow> bool" where
  "response_ok status = (200 \<le> status \<and> status \<le> 299)"

text \<open>When a remote party answers: after so many milliseconds, or never.\<close>

datatype delay = After nat | Never

text \<open>The tikwm API's JSON (\<^verbatim>\<open>TikwmVideoInfo\<close>, \<^verbatim>\<open>TikwmResponse\<close>).\<close>

record TikwmVideoInfo =
  tk_id :: string
  tk_title :: string
  author_unique_id :: string
  author_nickname :: string
  tk_duration :: jsnum
  play :: "string option"
  music :: "string option"
  cover :: string
  origin_cover :: string
  tk_size :: nat
  wm_size :: nat
  hd_size :: nat
  wmplay :: "string option"
  hdplay :: "string option"

record TikwmResponse =
  code :: int
  msg :: string
  processed_time :: jsnum
  data :: TikwmVideoInfo

text \<open>The JSON that yt-dlp prints (\<^verbatim>\<open>YtDlpInfo\<close>).\<close>

record YtDlpInfo =
  yt_id :: string
  yt_title :: string
  uploader :: string
  yt_duration :: jsnum
  yt_url :: string
  ext :: string
  filesize :: "nat option"
  thumbnail :: string
  description :: "string option"

text \<open>
  How a spawned yt-dlp ends: the spawn itself fails, or the process closes with an exit
  code, its standard output (as \<^verbatim>\<open>JSON.parse\<close> reads it), its standard error, and the
  file it wrote for the output template, if any (extension and content).
\<close>

datatype proc_outcome =
    SpawnFails exn
  | Closes int "YtDlpInfo parsed" string "(string \<times> bytes) option"

text \<open>The body of the transcription worker's response: its text, and how it parses as JSON.\<close>

record whisper_body =
  body_text :: string
  body_json :: "string parsed"

text \<open>
  The environment of a run: the process's working directory, the configured worker URL,
  the library's SHA-256, and how the file system and the remote parties behave. An I/O
  fault makes the operation on that path throw, whatever the file system holds.
  \<open>tikwm\<close> is the API's answer to the request built from a video URL, \<open>media\<close> the
  media host's answer for a download URL, \<open>whisper\<close> the worker's answer to an upload
  (bytes, file name, content type), and \<open>ytdlp\<close> what the tool does with its arguments;
  each comes with the time it takes.
\<close>

record env =
  cwd :: path
  WHISPER_API_URL :: string
  sha256_hex :: "string \<Rightarrow> string"
  io_fault :: "fs_op \<Rightarrow> path \<Rightarrow> exn option"
  tikwm :: "string \<Rightarrow> nat \<times> TikwmResponse parsed fetch_outcome"
  media :: "string \<Rightarrow> nat \<times> bytes fetch_outcome"
  whisper :: "bytes \<Rightarrow> string \<Rightarrow> string \<Rightarrow> delay \<times> whisper_body fetch_outcome"
  ytdlp :: "string list \<Rightarrow> nat \<times> proc_outcome"

section \<open>Effects: state and exceptions\<close>

text \<open>
  A computation takes the state and returns either the thrown error or a value, with the
  state it leaves. \<open>catchM\<close> is \<^verbatim>\<open>try { ... } catch (error) { ... }\<close>.
\<close>

type_synonym ('s, 'a) io = "'s \<Rightarrow> (exn + 'a) \<times> 's"

definition returnM :: "'a \<Rightarrow> ('s, 'a) io" where
  "returnM x s = (Inr x, s)"

definition throwM :: "exn \<Rightarrow> ('s, 'a) io" where
  "throwM e s = (Inl e, s)"

definition bindM :: "('s, 'a) io \<Rightarrow> ('a \<Rightarrow> ('s, 'b) io) \<Rightarrow> ('s, 'b) io" where
  "bindM m f s = (case m s of (Inl e, s') \<Rightarrow> (Inl e, s') | (Inr x, s') \<Rightarrow> f x s')"

definition thenM :: "('s, 'a) io \<Rightarrow> ('s, 'b) io \<Rightarrow> ('s, 'b) io" where
  "thenM m k = bindM m (\<lambda>_. k)"

definition catchM :: "('s, 'a) io \<Rightarrow> (exn \<Rightarrow> ('s, 'a) io) \<Rightarrow> ('s, 'a) io" where
  "catchM m h s = (case m s of (Inl e, s') \<Rightarrow> h e s' | (Inr x, s') \<Rightarrow> (Inr x, s'))"

definition Date_now :: "(world, nat) io" where
  "Date_now w = (Inr (now w), w)"

definition elapse :: "nat \<Rightarrow> (world, unit) io" where
  "elapse ms w = (Inr (), w\<lparr>now := now w + ms\<rparr>)"

definition outbound :: "call \<Rightarrow> (world, unit) io" where
  "outbound c w = (Inr (), w\<lparr>calls := calls w @ [c]\<rparr>)"

text \<open>A console line: its level and its first argument (the label).\<close>

definition console_line :: "level \<Rightarrow> string \<Rightarrow> (world, unit) io" where
  "console_line l s w = (Inr (), w\<lparr>console := console w @ [(l, s)]\<rparr>)"

definition ENOENT :: exn where
  "ENOENT = Exn ''Error'' ''ENOENT: no such file or directory''"

definition EISDIR :: exn where
  "EISDIR = Exn ''Error'' ''EISDIR: illegal operation on a directory''"

definition EEXIST :: exn where
  "EEXIST = Exn ''Error'' ''EEXIST: file already exists''"

definition access :: "env \<Rightarrow> path \<Rightarrow> (world, unit) io" where
  "access E p w =
     (case io_fault E Access p of
        Some e \<Rightarrow> (Inl e, w)
      | None \<Rightarrow> (case fs w p of None \<Rightarrow> (Inl ENOENT, w) | Some _ \<Rightarrow> (Inr (), w)))"

definition readFile :: "env \<Rightarrow> path \<Rightarrow> (world, bytes) io" where
  "readFile E p w =
     (case io_fault E ReadFile p of
        Some e \<Rightarrow> (Inl e, w)
      | None \<Rightarrow>
          (case fs w p of
             None \<Rightarrow> (Inl ENOENT, w)
           | Some Dir \<Rightarrow> (Inl EISDIR, w)
           | Some (File b) \<Rightarrow> (Inr b, w)))"

definition writeFile :: "env \<Rightarrow> path \<Rightarrow> bytes \<Rightarrow> (world, unit) io" where
  "writeFile E p b w =
     (case io_fault E WriteFile p of
        Some e \<Rightarrow> (Inl e, w)
      | None \<Rightarrow>
          (case fs w p of
             Some Dir \<Rightarrow> (Inl EISDIR, w)
           | _ \<Rightarrow> (Inr (), w\<lparr>fs := (fs w)(p \<mapsto> File b)\<rparr>)))"

text \<open>\<^verbatim>\<open>mkdir(p, { recursive: true })\<close>: an existing directory is not an error.\<close>

definition mkdir :: "env \<Rightarrow> path \<Rightarrow> (world, unit) io" where
  "mkdir E p w =
     (case io_fault E Mkdir p of
        Some e \<Rightarrow> (Inl e, w)
      | None \<Rightarrow>
          (case fs w p of
             Some (File _) \<Rightarrow> (Inl EEXIST, w)
           | _ \<Rightarrow> (Inr (), w\<lparr>fs := (fs w)(p \<mapsto> Dir)\<rparr>)))"

definition unlink :: "env \<Rightarrow> path \<Rightarrow> (world, unit) io" where
  "unlink E p w =
     (case io_fault E Unlink p of
        Some e \<Rightarrow> (Inl e, w)
      | None \<Rightarrow>
          (case fs w p of
             None \<Rightarrow> (Inl ENOENT, w)
           | Some _ \<Rightarrow> (Inr (), w\<lparr>fs := (fs w)(p := None)\<rparr>)))"

text \<open>
  \<^verbatim>\<open>fetch\<close>: the call leaves the process, the remote party takes its time, and the
  promise settles. With \<^verbatim>\<open>signal: AbortSignal.timeout(bound)\<close> the call is aborted with a
  \<^verbatim>\<open>TimeoutError\<close> once \<open>bound\<close> milliseconds have passed without an answer.
\<close>

definition settle :: "'b fetch_outcome \<Rightarrow> (world, nat \<times> string \<times> 'b) io" where
  "settle r = (case r of Rejects e \<Rightarrow> throwM e | Responds status statusText b \<Rightarrow> returnM (status, statusText, b))"

definition fetch :: "call \<Rightarrow> nat \<times> 'b fetch_outcome \<Rightarrow> (world, nat \<times> string \<times> 'b) io" where
  "fetch c r = thenM (outbound c) (thenM (elapse (fst r)) (settle (snd r)))"

definition TimeoutError :: exn where
  "TimeoutError = Exn ''TimeoutError'' ''The operation timed out.''"

definition fetch_with_timeout ::
  "call \<Rightarrow> nat \<Rightarrow> delay \<times> 'b fetch_outcome \<Rightarrow> (world, nat \<times> string \<times> 'b) io" where
  "fetch_with_timeout c bound r =
     thenM (outbound c)
       (case fst r of
          Never \<Rightarrow> thenM (elapse bound) (throwM TimeoutError)
        | After ms \<Rightarrow>
            if ms < bound then thenM (elapse ms) (settle (snd r))
            else thenM (elapse bound) (throwM TimeoutError))"

text \<open>\<^verbatim>\<open>await response.json()\<close> on a body that has arrived.\<close>

definition json_of :: "'b parsed \<Rightarrow> ('s, 'b) io" where
  "json_of b = (case b of ParseThrows e \<Rightarrow> throwM e | Parsed v \<Rightarrow> returnM v)"

section \<open>The cache\<close>

definition CACHE_DIR :: "env \<Rightarrow> path" where
  "CACHE_DIR E = join (cwd E) ''cache''"

definition initCacheDir :: "env \<Rightarrow> (world, unit) io" where
  "initCacheDir E =
     catchM (access E (CACHE_DIR E))
       (\<lambda>_. thenM (mkdir E (CACHE_DIR E)) (console_line Log ''Created cache directory:''))"

definition getCacheKey :: "env \<Rightarrow> string \<Rightarrow> string" where
  "getCacheKey E url = sha256_hex E url"

record media_file =
  buffer :: bytes
  filename :: string
  contentType :: string
  cached :: bool

definition extension_of :: "bool \<Rightarrow> string" where
  "extension_of audioOnly = (if audioOnly then ''mp3'' else ''mp4'')"

definition cachedFile :: "env \<Rightarrow> string \<Rightarrow> bool \<Rightarrow> path" where
  "cachedFile E videoUrl audioOnly =
     join (CACHE_DIR E) (getCacheKey E videoUrl @ ''.'' @ extension_of audioOnly)"

definition media_result :: "env \<Rightarrow> string \<Rightarrow> bool \<Rightarrow> bytes \<Rightarrow> bool \<Rightarrow> media_file" where
  "media_result E videoUrl audioOnly b c =
     \<lparr>buffer = b,
      filename = ''tiktok_'' @ getCacheKey E videoUrl @ ''.'' @ extension_of audioOnly,
      contentType = (if audioOnly then ''audio/mp3'' else ''video/mp4''),
      cached = c\<rparr>"

text \<open>
  The lookup at the head of \<^verbatim>\<open>downloadMedia\<close> (the same in both variants): the
  \<^verbatim>\<open>try\<close> returns the cached file, and the bare \<^verbatim>\<open>catch\<close> turns every error of the
  existence check or of the read into "proceed with download" (\<open>None\<close>).
\<close>

definition cache_lookup :: "env \<Rightarrow> string \<Rightarrow> bool \<Rightarrow> (world, media_file option) io" where
  "cache_lookup E videoUrl audioOnly =
     catchM
       (thenM (access E (cachedFile E videoUrl audioOnly))
         (thenM (console_line Log ''Found cached file for:'')
           (bindM (readFile E (cachedFile E videoUrl audioOnly))
             (\<lambda>b. returnM (Some (media_result E videoUrl audioOnly b True))))))
       (\<lambda>_. returnM None)"

text \<open>
  The write after a download (the same in both variants): a failure of
  \<^verbatim>\<open>writeFile\<close> is caught and only warned about.
\<close>

definition cache_store :: "env \<Rightarrow> string \<Rightarrow> bool \<Rightarrow> bytes \<Rightarrow> (world, unit) io" where
  "cache_store E videoUrl audioOnly b =
     catchM
       (thenM (writeFile E (cachedFile E videoUrl audioOnly) b)
         (console_line Log ''Saved to cache:''))
       (\<lambda>error. console_line Warn ''Failed to save to cache:'')"

section \<open>The tikwm variant: resolver\<close>

text \<open>
  \<^verbatim>\<open>encodeURIComponent\<close>. A string of the model is the sequence of bytes of the
  JavaScript string in UTF-8, generalised so that a surrogate code unit without its
  partner is the three bytes that UTF-8 would give its code point: the byte \<open>0xED\<close>
  followed by a byte from \<open>0xA0\<close> on. On a string that holds such a lone surrogate the
  function throws a \<^verbatim>\<open>URIError\<close>; otherwise it keeps the unreserved characters and
  writes every other byte as \<^verbatim>\<open>%\<close> and two hexadecimal digits. The error's message is
  the engine's (the one of Bun's engine is used).
\<close>

fun lone_surrogate :: "string \<Rightarrow> bool" where
  "lone_surrogate (a # b # s) =
     ((of_char a = (0xED :: nat) \<and> (0xA0 :: nat) \<le> of_char b) \<or> lone_surrogate (b # s))"
| "lone_surrogate _ = False"

definition uri_unreserved :: "char \<Rightarrow> bool" where
  "uri_unreserved c =
     List.member (''ABCDEFGHIJKLMNOPQRSTUVWXYZabcdefghijklmnopqrstuvwxyz0123456789-_.!~*()''
                  @ [CHR 0x27]) c"

definition hex_digit :: "nat \<Rightarrow> char" where
  "hex_digit n = ''0123456789ABCDEF'' ! (n mod 16)"

definition percent_encode :: "string \<Rightarrow> string" where
  "percent_encode s =
     concat (map (\<lambda>c. if uri_unreserved c then [c]
                      else [CHR ''%'', hex_digit (of_char c div 16), hex_digit (of_char c)]) s)"

definition URIError :: exn where
  "URIError = Exn ''URIError'' ''String contained an illegal UTF-16 sequence.''"

definition encodeURIComponent :: "string \<Rightarrow> ('s, string) io" where
  "encodeURIComponent s =
     (if lone_surrogate s then throwM URIError else returnM (percent_encode s))"

text \<open>
  \<^verbatim>\<open>getVideoInfo\<close>. The request goes to \<open>tikwmApiUrl\<close>; the record of outbound calls
  and the environment name the call by the video URL that this request URL carries.
\<close>

definition getVideoInfo_tikwm :: "env \<Rightarrow> string \<Rightarrow> (world, TikwmVideoInfo) io" where
  "getVideoInfo_tikwm E videoUrl =
     catchM
       (bindM (encodeURIComponent videoUrl) (\<lambda>encoded.
          let tikwmApiUrl = ''https://www.tikwm.com/api/?url='' @ encoded @ ''&hd=1''
          in bindM (fetch (TikwmApi videoUrl) (tikwm E videoUrl)) (\<lambda>(status, statusText, body).
               if \<not> response_ok status
               then throwM (new_Error (''tikwm API request failed: '' @ show_nat status @ '' '' @ statusText))
               else bindM (json_of body) (\<lambda>tikwmData.
                 if code tikwmData \<noteq> 0
                 then throwM (new_Error (''tikwm API error: '' @ msg tikwmData))
                 else returnM (data tikwmData)))))
       (\<lambda>error. throwM (new_Error (''Failed to get video info from tikwm: '' @ exn_message error)))"

text \<open>The URL that \<^verbatim>\<open>downloadMedia\<close> picks from the metadata.\<close>

definition choose_url :: "TikwmVideoInfo \<Rightarrow> bool \<Rightarrow> string option" where
  "choose_url videoInfo audioOnly =
     (if audioOnly then music videoInfo
      else or_else (hdplay videoInfo) (or_else (play videoInfo) (wmplay videoInfo)))"

definition download_miss_tikwm :: "env \<Rightarrow> string \<Rightarrow> bool \<Rightarrow> (world, media_file) io" where
  "download_miss_tikwm E videoUrl audioOnly =
     catchM
       (bindM (getVideoInfo_tikwm E videoUrl) (\<lambda>videoInfo.
          case choose_url videoInfo audioOnly of
            None \<Rightarrow> throwM (new_Error ''No suitable download URL found'')
          | Some downloadUrl \<Rightarrow>
              if downloadUrl = [] then throwM (new_Error ''No suitable download URL found'')
              else bindM (fetch (MediaGet downloadUrl) (media E downloadUrl)) (\<lambda>(status, statusText, b).
                if \<not> response_ok status
                then throwM (new_Error (''Failed to download media: '' @ show_nat status @ '' '' @ statusText))
                else thenM (cache_store E videoUrl audioOnly b)
                       (returnM (media_result E videoUrl audioOnly b False)))))
       (\<lambda>error. throwM (new_Error (''Failed to download media: '' @ exn_message error)))"

definition downloadMedia_tikwm :: "env \<Rightarrow> string \<Rightarrow> bool \<Rightarrow> (world, media_file) io" where
  "downloadMedia_tikwm E videoUrl audioOnly =
     thenM (initCacheDir E)
       (bindM (cache_lookup E videoUrl audioOnly) (\<lambda>hit.
          case hit of
            Some r \<Rightarrow> returnM r
          | None \<Rightarrow> download_miss_tikwm E videoUrl audioOnly))"

section \<open>The yt-dlp variant: resolver\<close>

definition path_string :: "path \<Rightarrow> string" where
  "path_string p = concat (map (\<lambda>c. ''/'' @ c) p)"

text \<open>
  \<^verbatim>\<open>spawn('yt-dlp', args)\<close> up to the event that settles the promise: the call leaves
  the process and the tool takes its time. When a download wrote an output file, the
  file is in \<open>dir\<close> under \<open>stem\<close> with the extension the tool chose.
\<close>

definition spawn_ytdlp :: "env \<Rightarrow> string list \<Rightarrow> (world, proc_outcome) io" where
  "spawn_ytdlp E args =
     thenM (outbound (YtDlp args))
       (thenM (elapse (fst (ytdlp E args))) (returnM (snd (ytdlp E args))))"

definition proc_writes :: "path \<Rightarrow> string \<Rightarrow> proc_outcome \<Rightarrow> (world, unit) io" where
  "proc_writes dir stem out w =
     (case out of
        Closes _ _ _ (Some (e, b)) \<Rightarrow> (Inr (), w\<lparr>fs := (fs w)(join dir (stem @ ''.'' @ e) \<mapsto> File b)\<rparr>)
      | _ \<Rightarrow> (Inr (), w))"

definition getVideoInfo_ytdlp :: "env \<Rightarrow> string \<Rightarrow> (world, YtDlpInfo) io" where
  "getVideoInfo_ytdlp E videoUrl =
     bindM (spawn_ytdlp E [''--dump-json'', ''--no-download'', videoUrl])
       (\<lambda>out. case out of
          SpawnFails error \<Rightarrow> throwM (new_Error (''Failed to spawn yt-dlp: '' @ exn_message error))
        | Closes c output errorOutput _ \<Rightarrow>
            if c = 0
            then (case output of
                    Parsed info \<Rightarrow> returnM info
                  | ParseThrows _ \<Rightarrow> throwM (new_Error ''Failed to parse yt-dlp output''))
            else throwM (new_Error (''yt-dlp failed: '' @ errorOutput)))"

definition tempDir :: path where
  "tempDir = [''tmp'']"

definition download_args :: "path \<Rightarrow> bool \<Rightarrow> string \<Rightarrow> string list" where
  "download_args outputTemplate audioOnly videoUrl =
     [''--no-playlist'', ''-o'', path_string outputTemplate]
     @ (if audioOnly
        then [''--extract-audio'', ''--audio-format'', ''mp3'', ''--audio-quality'', ''128K'']
        else [''--format'', ''best[ext=mp4]/best'', ''--merge-output-format'', ''mp4''])
     @ [videoUrl]"

definition download_miss_ytdlp :: "env \<Rightarrow> string \<Rightarrow> bool \<Rightarrow> (world, media_file) io" where
  "download_miss_ytdlp E videoUrl audioOnly =
     bindM Date_now (\<lambda>timestamp.
       let stem = ''tiktok_'' @ show_nat timestamp;
           outputTemplate = join tempDir (stem @ ''.%(ext)s'')
       in bindM (spawn_ytdlp E (download_args outputTemplate audioOnly videoUrl))
            (\<lambda>out. thenM (proc_writes tempDir stem out)
              (case out of
                 SpawnFails error \<Rightarrow> throwM (new_Error (''Failed to spawn yt-dlp: '' @ exn_message error))
               | Closes c _ errorOutput _ \<Rightarrow>
                   if c = 0
                   then catchM
                          (let expectedFile = join tempDir (stem @ ''.'' @ extension_of audioOnly)
                           in bindM (readFile E expectedFile) (\<lambda>b.
                                thenM (cache_store E videoUrl audioOnly b)
                                  (thenM (catchM (unlink E expectedFile) (\<lambda>_. returnM ()))
                                    (returnM (media_result E videoUrl audioOnly b False)))))
                          (\<lambda>error. throwM (new_Error (''Failed to read downloaded file: ''
                                       @ exn_name error @ '': '' @ exn_message error)))
                   else throwM (new_Error (''yt-dlp download failed: '' @ errorOutput)))))"

definition downloadMedia_ytdlp :: "env \<Rightarrow> string \<Rightarrow> bool \<Rightarrow> (world, media_file) io" where
  "downloadMedia_ytdlp E videoUrl audioOnly =
     thenM (initCacheDir E)
       (bindM (cache_lookup E videoUrl audioOnly) (\<lambda>hit.
          case hit of
            Some r \<Rightarrow> returnM r
          | None \<Rightarrow> download_miss_ytdlp E videoUrl audioOnly))"

section \<open>Requests and responses\<close>

text \<open>
  The request body as \<^verbatim>\<open>const { url } = await c.req.json()\<close> sees it: text that is not
  JSON (the parse throws), the JSON value \<^verbatim>\<open>null\<close> (the destructuring throws a
  \<^verbatim>\<open>TypeError\<close>), or any other JSON value, whose \<^verbatim>\<open>url\<close> property is absent or a
  string. The endpoints document the body as \<^verbatim>\<open>{ "url": string }\<close>; a \<^verbatim>\<open>url\<close> of
  another JSON type is outside the model.
\<close>

datatype req_body = Malformed exn | Json_null | Json_value "string option"

record request =
  body :: req_body
  query :: "string \<Rightarrow> string option"

datatype json = JStr string | JNum jsnum | JBool bool | JObj "(string \<times> json) list"

text \<open>\<^verbatim>\<open>c.json(value, status)\<close> and \<^verbatim>\<open>c.redirect(location)\<close>.\<close>

datatype response = JsonResponse nat json | Redirect string

text \<open>
  The \<^verbatim>\<open>TypeError\<close> of destructuring \<^verbatim>\<open>null\<close>; its message is the engine's (the one
  of Bun's engine is used).
\<close>

definition TypeError_null :: exn where
  "TypeError_null = Exn ''TypeError'' ''Right side of assignment cannot be destructured''"

definition destructure_url :: "request \<Rightarrow> ('s, string option) io" where
  "destructure_url req =
     (case body req of
        Malformed e \<Rightarrow> throwM e
      | Json_null \<Rightarrow> throwM TypeError_null
      | Json_value url \<Rightarrow> returnM url)"

definition flag :: "request \<Rightarrow> string \<Rightarrow> bool" where
  "flag req name = (query req name = Some ''true'')"

text \<open>
  \<^verbatim>\<open>/^https?:\/\/(www\.)?(tiktok\.com|vm\.tiktok\.com)/\<close>: anchored at the start only,
  so \<^verbatim>\<open>test\<close> holds when one word of the pattern's language starts the string.
\<close>

definition TIKTOK_URL_PATTERN :: "string list" where
  "TIKTOK_URL_PATTERN =
     [scheme @ ''://'' @ www @ host.
        scheme \<leftarrow> [''http'', ''https''],
        www \<leftarrow> ['''', ''www.''],
        host \<leftarrow> [''tiktok.com'', ''vm.tiktok.com'']]"

definition TIKTOK_URL_PATTERN_test :: "string \<Rightarrow> bool" where
  "TIKTOK_URL_PATTERN_test url = list_ex (\<lambda>p. prefix p url) TIKTOK_URL_PATTERN"

definition invalid_response :: response where
  "invalid_response = JsonResponse 400 (JObj [(''error'', JStr ''Invalid or missing TikTok URL.'')])"

text \<open>
  \<^verbatim>\<open>if (!url || !TIKTOK_URL_PATTERN.test(url)) return c.json({ error: ... }, 400);\<close>
  followed by the rest of the handler.
\<close>

definition with_valid_url :: "string option \<Rightarrow> (string \<Rightarrow> ('s, response) io) \<Rightarrow> ('s, response) io" where
  "with_valid_url url k =
     (case url of
        None \<Rightarrow> returnM invalid_response
      | Some u \<Rightarrow>
          if u = [] \<or> \<not> TIKTOK_URL_PATTERN_test u then returnM invalid_response else k u)"

section \<open>POST /download\<close>

definition download_failed :: "exn \<Rightarrow> (world, response) io" where
  "download_failed error =
     thenM (console_line Err ''Download error:'')
       (returnM (JsonResponse 500
          (JObj [(''error'', JStr ''Failed to get download URL''),
                 (''details'', JStr (exn_message error))])))"

definition download_tikwm :: "env \<Rightarrow> request \<Rightarrow> (world, response) io" where
  "download_tikwm E req =
     bindM (destructure_url req) (\<lambda>url.
       let hq = flag req ''hq''
       in with_valid_url url (\<lambda>url.
            catchM
              (bindM (getVideoInfo_tikwm E url) (\<lambda>info.
                 let downloadUrl = or_else (hdplay info) (or_else (play info) (wmplay info));
                     downloadUrl = (if hq \<and> truthy (hdplay info) then hdplay info else downloadUrl)
                 in case downloadUrl of
                      None \<Rightarrow> throwM (new_Error ''No download URL available'')
                    | Some d \<Rightarrow>
                        if d = [] then throwM (new_Error ''No download URL available'')
                        else returnM (Redirect d)))
              download_failed))"

definition download_ytdlp :: "env \<Rightarrow> request \<Rightarrow> (world, response) io" where
  "download_ytdlp E req =
     bindM (destructure_url req) (\<lambda>url.
       let hq = flag req ''hq''
       in with_valid_url url (\<lambda>url.
            catchM
              (bindM (getVideoInfo_ytdlp E url) (\<lambda>info. returnM (Redirect (yt_url info))))
              download_failed))"

section \<open>POST /caption\<close>

text \<open>
  The handler's \<^verbatim>\<open>timing\<close> object is local to one request and is written in the
  \<^verbatim>\<open>try\<close> block and read in the \<^verbatim>\<open>catch\<close> block, so the handler's body runs on the
  pair of the timing and the world.
\<close>

record timing =
  start :: nat
  metadataStart :: nat
  metadataEnd :: nat
  downloadStart :: nat
  downloadEnd :: nat
  transcribeStart :: nat
  transcribeEnd :: nat
  total :: int

definition liftW :: "(world, 'a) io \<Rightarrow> (timing \<times> world, 'a) io" where
  "liftW m s = (case m (snd s) of (r, w') \<Rightarrow> (r, (fst s, w')))"

text \<open>\<^verbatim>\<open>timing.field = Date.now()\<close>.\<close>

definition stamp :: "(nat \<Rightarrow> timing \<Rightarrow> timing) \<Rightarrow> (timing \<times> world, unit) io" where
  "stamp f s = (Inr (), (f (now (snd s)) (fst s), snd s))"

definition the_timing :: "(timing \<times> world, timing) io" where
  "the_timing s = (Inr (fst s), s)"

definition set_total :: "int \<Rightarrow> (timing \<times> world, unit) io" where
  "set_total d s = (Inr (), ((fst s)\<lparr>total := d\<rparr>, snd s))"

definition with_timing :: "timing \<Rightarrow> (timing \<times> world, 'a) io \<Rightarrow> (world, 'a) io" where
  "with_timing t m w = (case m (t, w) of (r, s') \<Rightarrow> (r, snd s'))"

definition show_int :: "int \<Rightarrow> string" where
  "show_int i = (if i < 0 then ''-'' @ show_nat (nat (- i)) else show_nat (nat i))"

definition num :: "int \<Rightarrow> jsnum" where
  "num i = Num (of_int i)"

text \<open>
  What differs between the two variants of the handler: the resolver's two functions,
  and how the metadata object of the response is built from the provider's record.
\<close>

record 'm resolver =
  getVideoInfo :: "env \<Rightarrow> string \<Rightarrow> (world, 'm) io"
  downloadMedia :: "env \<Rightarrow> string \<Rightarrow> bool \<Rightarrow> (world, media_file) io"
  duration :: "'m \<Rightarrow> jsnum"
  metadata_json :: "'m \<Rightarrow> bool \<Rightarrow> nat \<Rightarrow> bool \<Rightarrow> (string \<times> json) list"

definition processingType :: "bool \<Rightarrow> string" where
  "processingType audioOnly = (if audioOnly then ''audio-only'' else ''video'')"

definition metadata_tikwm :: "TikwmVideoInfo \<Rightarrow> bool \<Rightarrow> nat \<Rightarrow> bool \<Rightarrow> (string \<times> json) list" where
  "metadata_tikwm metadata audioOnly fileSize c =
     [(''title'', JStr (tk_title metadata)),
      (''author'', JStr (author_nickname metadata)),
      (''authorId'', JStr (author_unique_id metadata)),
      (''duration'', JNum (tk_duration metadata)),
      (''processingType'', JStr (processingType audioOnly)),
      (''fileSize'', JNum (Num (of_nat fileSize))),
      (''thumbnail'', JStr (cover metadata)),
      (''originCover'', JStr (origin_cover metadata)),
      (''cached'', JBool c)]"

definition metadata_ytdlp :: "YtDlpInfo \<Rightarrow> bool \<Rightarrow> nat \<Rightarrow> bool \<Rightarrow> (string \<times> json) list" where
  "metadata_ytdlp metadata audioOnly fileSize c =
     [(''title'', JStr (yt_title metadata)),
      (''author'', JStr (uploader metadata)),
      (''duration'', JNum (yt_duration metadata)),
      (''processingType'', JStr (processingType audioOnly)),
      (''fileSize'', JNum (Num (of_nat fileSize))),
      (''thumbnail'', JStr (thumbnail metadata))]
     @ (case description metadata of None \<Rightarrow> [] | Some d \<Rightarrow> [(''description'', JStr d)])
     @ [(''cached'', JBool c)]"

definition resolver_tikwm :: "TikwmVideoInfo resolver" where
  "resolver_tikwm =
     \<lparr>getVideoInfo = getVideoInfo_tikwm, downloadMedia = downloadMedia_tikwm,
      duration = tk_duration, metadata_json = metadata_tikwm\<rparr>"

definition resolver_ytdlp :: "YtDlpInfo resolver" where
  "resolver_ytdlp =
     \<lparr>getVideoInfo = getVideoInfo_ytdlp, downloadMedia = downloadMedia_ytdlp,
      duration = yt_duration, metadata_json = metadata_ytdlp\<rparr>"

text \<open>Steps 1 and 2 of the \<^verbatim>\<open>try\<close> block: metadata, then the media bytes.\<close>

definition caption_resolve ::
  "'m resolver \<Rightarrow> env \<Rightarrow> string \<Rightarrow> bool \<Rightarrow> (timing \<times> world, 'm \<times> media_file) io" where
  "caption_resolve R E url audioOnly =
     thenM (stamp (\<lambda>n t. t\<lparr>metadataStart := n\<rparr>))
       (bindM (liftW (getVideoInfo R E url)) (\<lambda>metadata.
          thenM (stamp (\<lambda>n t. t\<lparr>metadataEnd := n\<rparr>))
            (thenM (liftW (console_line Log ''Got metadata for''))
              (thenM (stamp (\<lambda>n t. t\<lparr>downloadStart := n\<rparr>))
                (bindM (liftW (downloadMedia R E url audioOnly)) (\<lambda>m.
                   thenM (stamp (\<lambda>n t. t\<lparr>downloadEnd := n\<rparr>))
                     (thenM (liftW (console_line Log
                               (if cached m then ''Retrieved from cache'' else ''Downloaded'')))
                       (returnM (metadata, m)))))))))"

text \<open>The \<^verbatim>\<open>debug\<close> object of a successful response.\<close>

definition debug_json :: "int \<Rightarrow> int \<Rightarrow> int \<Rightarrow> int \<Rightarrow> nat \<Rightarrow> jsnum \<Rightarrow> bool \<Rightarrow> json" where
  "debug_json tot metadataTime downloadTime transcribeTime fileSize dur audioOnly =
     JObj
      [(''timing'', JObj
          [(''total'', JStr (show_int tot @ ''ms'')),
           (''metadata'', JStr (show_int metadataTime @ ''ms'')),
           (''download'', JStr (show_int downloadTime @ ''ms'')),
           (''transcription'', JStr (show_int transcribeTime @ ''ms''))]),
       (''performance'', JObj
          [(''downloadSpeed'', JStr (toFixed 2
              (js_div (js_div (js_div (Num (of_nat fileSize)) (js_div (num downloadTime) (Num 1000)))
                        (Num 1024)) (Num 1024)) @ '' MB/s'')),
           (''transcriptionSpeed'', JStr (toFixed 2
              (js_div dur (js_div (num transcribeTime) (Num 1000))) @ ''x realtime'')),
           (''efficiency'', JStr (if audioOnly then ''audio-only (optimized)'' else ''full-video''))]),
       (''breakdown'', JObj
          [(''metadataFetch'', JStr (toFixed 1 (js_mul (js_div (num metadataTime) (num tot)) (Num 100)) @ ''%'')),
           (''mediaDownload'', JStr (toFixed 1 (js_mul (js_div (num downloadTime) (num tot)) (Num 100)) @ ''%'')),
           (''transcription'', JStr (toFixed 1 (js_mul (js_div (num transcribeTime) (num tot)) (Num 100)) @ ''%''))])]"

definition success_json ::
  "'m resolver \<Rightarrow> string \<Rightarrow> bool \<Rightarrow> bool \<Rightarrow> 'm \<Rightarrow> media_file \<Rightarrow> string \<Rightarrow> timing \<Rightarrow> json" where
  "success_json R url audioOnly debug metadata m caption_text t =
     (let metadataTime = int (metadataEnd t) - int (metadataStart t);
          downloadTime = int (downloadEnd t) - int (downloadStart t);
          transcribeTime = int (transcribeEnd t) - int (transcribeStart t)
      in JObj
          ([(''url'', JStr url),
            (''caption'', JStr caption_text),
            (''metadata'', JObj (metadata_json R metadata audioOnly (length (buffer m)) (cached m))),
            (''downloadUrl'', JStr ''/download'')]
           @ (if debug
              then [(''debug'', debug_json (total t) metadataTime downloadTime transcribeTime
                                  (length (buffer m)) (duration R metadata) audioOnly)]
              else [])))"

text \<open>
  Steps 3 to 5 of the \<^verbatim>\<open>try\<close> block: the upload to the transcription worker under
  \<^verbatim>\<open>AbortSignal.timeout(120000)\<close>, and the response.
\<close>

definition caption_dispatch ::
  "'m resolver \<Rightarrow> env \<Rightarrow> string \<Rightarrow> bool \<Rightarrow> bool \<Rightarrow> 'm \<times> media_file \<Rightarrow> (timing \<times> world, response) io" where
  "caption_dispatch R E url audioOnly debug mm =
     (let metadata = fst mm; m = snd mm
      in thenM (stamp (\<lambda>n t. t\<lparr>transcribeStart := n\<rparr>))
           (bindM (liftW (fetch_with_timeout (WhisperPost (buffer m) (filename m) (contentType m)) 120000
                            (whisper E (buffer m) (filename m) (contentType m))))
              (\<lambda>(status, statusText, whisperBody).
                 if \<not> response_ok status
                 then thenM (liftW (console_line Err ''Whisper API Error:''))
                        (returnM (JsonResponse 500
                           (JObj [(''error'', JStr ''Transcription service failed.''),
                                  (''details'', JStr (body_text whisperBody))])))
                 else bindM (json_of (body_json whisperBody)) (\<lambda>caption_text.
                        thenM (stamp (\<lambda>n t. t\<lparr>transcribeEnd := n\<rparr>))
                          (bindM the_timing (\<lambda>t.
                             thenM (set_total (int (transcribeEnd t) - int (start t)))
                               (bindM the_timing (\<lambda>t.
                                  returnM (JsonResponse 200
                                    (success_json R url audioOnly debug metadata m caption_text t))))))))))"

text \<open>
  The \<^verbatim>\<open>catch\<close> block. Every value thrown in the model is an error object, so
  \<^verbatim>\<open>error instanceof Error\<close> holds and the branches are told apart by the error's name.
\<close>

definition partialTiming :: "timing \<Rightarrow> nat \<Rightarrow> json" where
  "partialTiming t errorTime =
     JObj [(''total'', JNum (num (int errorTime - int (start t)))),
           (''metadata'', JNum (num (if metadataEnd t > 0 then int (metadataEnd t) - int (metadataStart t) else 0))),
           (''download'', JNum (num (if downloadEnd t > 0 then int (downloadEnd t) - int (downloadStart t) else 0))),
           (''transcription'', JNum (num (if transcribeStart t > 0 then int errorTime - int (transcribeStart t) else 0)))]"

definition failedAt :: "timing \<Rightarrow> string" where
  "failedAt t =
     (if transcribeStart t > 0 then ''transcription''
      else if downloadStart t > 0 then ''download'' else ''metadata'')"

definition timeout_response :: "string \<Rightarrow> string \<Rightarrow> bool \<Rightarrow> timing \<Rightarrow> nat \<Rightarrow> response" where
  "timeout_response err details debug t errorTime =
     JsonResponse 408
       (JObj ([(''error'', JStr err), (''details'', JStr details)]
              @ (if debug
                 then [(''debug'', JObj [(''timing'', partialTiming t errorTime),
                                         (''failedAt'', JStr (failedAt t))])]
                 else [])))"

definition caption_catch :: "bool \<Rightarrow> exn \<Rightarrow> (timing \<times> world, response) io" where
  "caption_catch debug error =
     thenM (liftW (console_line Err (exn_message error)))
       (bindM (liftW Date_now) (\<lambda>errorTime.
          bindM the_timing (\<lambda>t.
            if exn_name error = ''TimeoutError''
            then returnM (timeout_response
                   ''Request timed out. The video might be too long or the transcription service is slow.''
                   ''Please try again or use a shorter video.'' debug t errorTime)
            else if exn_name error = ''AbortError''
            then returnM (timeout_response
                   ''Request was aborted due to timeout.''
                   ''The operation took longer than expected.'' debug t errorTime)
            else returnM (JsonResponse 500 (JObj [(''error'', JStr ''An internal server error occurred.'')])))))"

definition timing0 :: "nat \<Rightarrow> timing" where
  "timing0 n =
     \<lparr>start = n, metadataStart = 0, metadataEnd = 0, downloadStart = 0, downloadEnd = 0,
      transcribeStart = 0, transcribeEnd = 0, total = 0\<rparr>"

definition caption_try ::
  "'m resolver \<Rightarrow> env \<Rightarrow> string \<Rightarrow> bool \<Rightarrow> bool \<Rightarrow> (timing \<times> world, response) io" where
  "caption_try R E url audioOnly debug =
     bindM (caption_resolve R E url audioOnly) (caption_dispatch R E url audioOnly debug)"

definition caption :: "'m resolver \<Rightarrow> env \<Rightarrow> request \<Rightarrow> (world, response) io" where
  "caption R E req =
     bindM (destructure_url req) (\<lambda>url.
       let audioOnly = flag req ''audio_only'';
           debug = flag req ''debug''
       in with_valid_url url (\<lambda>url.
            bindM Date_now (\<lambda>n.
              with_timing (timing0 n)
                (catchM (caption_try R E url audioOnly debug) (caption_catch debug)))))"

definition caption_tikwm :: "env \<Rightarrow> request \<Rightarrow> (world, response) io" where
  "caption_tikwm = caption resolver_tikwm"

definition caption_ytdlp :: "env \<Rightarrow> request \<Rightarrow> (world, response) io" where
  "caption_ytdlp = caption resolver_ytdlp"

section \<open>Observations on responses and runs\<close>

text \<open>The HTTP status of a response (\<^verbatim>\<open>c.redirect\<close> answers 302).\<close>

definition status :: "response \<Rightarrow> nat" where
  "status r = (case r of JsonResponse st _ \<Rightarrow> st | Redirect _ \<Rightarrow> 302)"

text \<open>The value at a path of field names in a JSON value, and in a response's body.\<close>

fun json_path :: "json \<Rightarrow> string list \<Rightarrow> json option" where
  "json_path j [] = Some j"
| "json_path (JObj kvs) (k # ks) = (case map_of kvs k of None \<Rightarrow> None | Some v \<Rightarrow> json_path v ks)"
| "json_path _ (k # ks) = None"

definition body_field :: "response \<Rightarrow> string list \<Rightarrow> json option" where
  "body_field r ks = (case r of JsonResponse _ j \<Rightarrow> json_path j ks | Redirect _ \<Rightarrow> None)"

text \<open>
  The errors of \<^verbatim>\<open>downloadMedia\<close> (tikwm variant) that the specification names: the
  code throws plain \<^verbatim>\<open>Error\<close>s, told apart by their messages, and the outer
  \<^verbatim>\<open>catch\<close> prefixes each message once more.
\<close>

definition NoDownloadUrl :: exn where
  "NoDownloadUrl = new_Error ''Failed to download media: No suitable download URL found''"

definition DownloadFailed :: "nat \<Rightarrow> string \<Rightarrow> exn" where
  "DownloadFailed st txt =
     new_Error (''Failed to download media: Failed to download media: '' @ show_nat st @ '' '' @ txt)"

text \<open>
  A computation only ever appends to the record of outbound calls (\<open>proj\<close> finds the
  world in the state).
\<close>

definition grows_on :: "('s \<Rightarrow> world) \<Rightarrow> ('s, 'a) io \<Rightarrow> bool" where
  "grows_on proj m = (\<forall>s. prefix (calls (proj s)) (calls (proj (snd (m s)))))"

text \<open>
  No I/O operation on the cache file of a URL fails: no fault on its existence check,
  read or write, and no directory in its place.
\<close>

definition cache_file_usable :: "env \<Rightarrow> world \<Rightarrow> string \<Rightarrow> bool \<Rightarrow> bool" where
  "cache_file_usable E w videoUrl audioOnly =
     (io_fault E Access (cachedFile E videoUrl audioOnly) = None \<and>
      io_fault E ReadFile (cachedFile E videoUrl audioOnly) = None \<and>
      io_fault E WriteFile (cachedFile E videoUrl audioOnly) = None \<and>
      fs w (cachedFile E videoUrl audioOnly) \<noteq> Some Dir)"

section \<open>Concrete runs\<close>

text \<open>
  A small environment in which every party answers: the provider knows one video, the
  media host serves three bytes, the worker transcribes them, and yt-dlp prints the
  metadata or writes the audio file, depending on its arguments.
\<close>

definition demo_info :: TikwmVideoInfo where
  "demo_info =
     \<lparr>tk_id = ''123'', tk_title = ''title'', author_unique_id = ''user'', author_nickname = ''User'',
      tk_duration = Num 30, play = Some ''https://cdn/play'', music = Some ''https://cdn/music'',
      cover = ''https://cdn/cover'', origin_cover = ''https://cdn/origin'',
      tk_size = 3, wm_size = 3, hd_size = 0, wmplay = None, hdplay = Some ''''\<rparr>"

definition demo_yt_info :: YtDlpInfo where
  "demo_yt_info =
     \<lparr>yt_id = ''123'', yt_title = ''title'', uploader = ''User'', yt_duration = Num 30,
      yt_url = ''https://cdn/direct'', ext = ''mp4'', filesize = None,
      thumbnail = ''https://cdn/cover'', description = None\<rparr>"

definition demo_tikwm :: "string \<Rightarrow> nat \<times> TikwmResponse parsed fetch_outcome" where
  "demo_tikwm u =
     (5, Responds 200 ''OK''
           (Parsed \<lparr>code = 0, msg = ''success'', processed_time = Num 0, data = demo_info\<rparr>))"

definition demo_media :: "string \<Rightarrow> nat \<times> bytes fetch_outcome" where
  "demo_media u = (7, Responds 200 ''OK'' [1, 2, 3])"

definition demo_whisper :: "bytes \<Rightarrow> string \<Rightarrow> string \<Rightarrow> delay \<times> whisper_body fetch_outcome" where
  "demo_whisper b f c =
     (After 11, Responds 200 ''OK'' \<lparr>body_text = ''{}'', body_json = Parsed ''hello world''\<rparr>)"

definition demo_ytdlp :: "string list \<Rightarrow> nat \<times> proc_outcome" where
  "demo_ytdlp args =
     (if take 1 args = [''--dump-json'']
      then (3, Closes 0 (Parsed demo_yt_info) [] None)
      else (9, Closes 0 (ParseThrows (Exn ''SyntaxError'' ''Unexpected end of JSON input'')) []
                 (Some (''mp3'', [1, 2, 3]))))"

definition demo_key :: "string \<Rightarrow> string" where
  "demo_key s = s"

definition no_fault :: "fs_op \<Rightarrow> path \<Rightarrow> exn option" where
  "no_fault op p = None"

definition demo_env :: env where
  "demo_env =
     \<lparr>cwd = [''app''], WHISPER_API_URL = ''http://localhost:8000/transcribe'',
      sha256_hex = demo_key, io_fault = no_fault,
      tikwm = demo_tikwm, media = demo_media, whisper = demo_whisper, ytdlp = demo_ytdlp\<rparr>"

definition no_files :: "path \<Rightarrow> node option" where
  "no_files p = None"

definition demo_world :: world where
  "demo_world = \<lparr>fs = no_files, now = 1000, calls = [], console = []\<rparr>"

definition demo_url :: string where
  "demo_url = ''https://www.tiktok.com/@user/video/123''"

definition demo_query :: "string \<Rightarrow> string option" where
  "demo_query k = (if k = ''audio_only'' \<or> k = ''debug'' then Some ''true'' else None)"

definition demo_req :: request where
  "demo_req = \<lparr>body = Json_value (Some demo_url), query = demo_query\<rparr>"

text \<open>Requests that do not pass validation, or do not reach it.\<close>

definition req_bad_url :: request where
  "req_bad_url = \<lparr>body = Json_value (Some ''not-a-url''), query = demo_query\<rparr>"

definition req_no_url :: request where
  "req_no_url = \<lparr>body = Json_value None, query = demo_query\<rparr>"

definition req_null :: request where
  "req_null = \<lparr>body = Json_null, query = demo_query\<rparr>"

definition req_empty_body :: request where
  "req_empty_body =
     \<lparr>body = Malformed (Exn ''SyntaxError'' ''Unexpected end of JSON input''), query = demo_query\<rparr>"

text \<open>
  A URL that passes the pattern and ends in the lone surrogate \<^verbatim>\<open>U+D800\<close>.
\<close>

definition surrogate_url :: string where
  "surrogate_url = ''https://www.tiktok.com/'' @ [CHR 0xED, CHR 0xA0, CHR 0x80]"

definition req_surrogate :: request where
  "req_surrogate = \<lparr>body = Json_value (Some surrogate_url), query = demo_query\<rparr>"

text \<open>Environments in which one party misbehaves.\<close>

definition EACCES :: exn where
  "EACCES = Exn ''Error'' ''EACCES: permission denied''"

definition write_fault :: "fs_op \<Rightarrow> path \<Rightarrow> exn option" where
  "write_fault op p = (if op = WriteFile then Some EACCES else None)"

definition read_fault :: "fs_op \<Rightarrow> path \<Rightarrow> exn option" where
  "read_fault op p = (if op = ReadFile then Some EACCES else None)"

definition env_write_fault :: env where
  "env_write_fault = demo_env\<lparr>io_fault := write_fault\<rparr>"

definition env_read_fault :: env where
  "env_read_fault = demo_env\<lparr>io_fault := read_fault\<rparr>"

definition cached_files :: "path \<Rightarrow> node option" where
  "cached_files p =
     (if p = [''app'', ''cache''] then Some Dir
      else if p = [''app'', ''cache'', demo_url @ ''.mp3''] then Some (File [9, 9])
      else None)"

definition world_cached :: world where
  "world_cached = \<lparr>fs = cached_files, now = 1000, calls = [], console = []\<rparr>"

definition tikwm_refuses :: "string \<Rightarrow> nat \<times> TikwmResponse parsed fetch_outcome" where
  "tikwm_refuses u =
     (5, Responds 200 ''OK''
           (Parsed \<lparr>code = - 1, msg = ''Url parsing is failed!'', processed_time = Num 0,
                    data = demo_info\<rparr>))"

definition ytdlp_fails :: "string list \<Rightarrow> nat \<times> proc_outcome" where
  "ytdlp_fails args =
     (3, Closes 1 (ParseThrows (Exn ''SyntaxError'' ''Unexpected end of JSON input''))
           ''ERROR: Unable to extract'' None)"

definition env_provider_down :: env where
  "env_provider_down = demo_env\<lparr>tikwm := tikwm_refuses, ytdlp := ytdlp_fails\<rparr>"

definition whisper_silent :: "bytes \<Rightarrow> string \<Rightarrow> string \<Rightarrow> delay \<times> whisper_body fetch_outcome" where
  "whisper_silent b f c = (Never, Rejects (Exn ''TypeError'' ''fetch failed''))"

definition whisper_broken :: "bytes \<Rightarrow> string \<Rightarrow> string \<Rightarrow> delay \<times> whisper_body fetch_outcome" where
  "whisper_broken b f c =
     (After 11, Responds 503 ''Service Unavailable''
                  \<lparr>body_text = ''model not loaded'',
                   body_json = ParseThrows (Exn ''SyntaxError'' ''Unexpected token'')\<rparr>)"

definition env_worker_silent :: env where
  "env_worker_silent = demo_env\<lparr>whisper := whisper_silent\<rparr>"

definition env_worker_broken :: env where
  "env_worker_broken = demo_env\<lparr>whisper := whisper_broken\<rparr>"

text \<open>An environment in which every party answers within the same millisecond.\<close>

definition instant_tikwm :: "string \<Rightarrow> nat \<times> TikwmResponse parsed fetch_outcome" where
  "instant_tikwm u = (0, snd (demo_tikwm u))"

definition instant_media :: "string \<Rightarrow> nat \<times> bytes fetch_outcome" where
  "instant_media u = (0, snd (demo_media u))"

definition instant_whisper :: "bytes \<Rightarrow> string \<Rightarrow> string \<Rightarrow> delay \<times> whisper_body fetch_outcome" where
  "instant_whisper b f c = (After 0, snd (demo_whisper b f c))"

definition instant_ytdlp :: "string list \<Rightarrow> nat \<times> proc_outcome" where
  "instant_ytdlp args = (0, snd (demo_ytdlp args))"

definition env_instant :: env where
  "env_instant =
     demo_env\<lparr>tikwm := instant_tikwm, media := instant_media, whisper := instant_whisper,
               ytdlp := instant_ytdlp\<rparr>"

text \<open>A video without any download URL, and a media host that has lost the file.\<close>

definition info_no_urls :: TikwmVideoInfo where
  "info_no_urls = demo_info\<lparr>play := None, music := Some [], wmplay := None, hdplay := None\<rparr>"

definition tikwm_no_urls :: "string \<Rightarrow> nat \<times> TikwmResponse parsed fetch_outcome" where
  "tikwm_no_urls u =
     (5, Responds 200 ''OK''
           (Parsed \<lparr>code = 0, msg = ''success'', processed_time = Num 0, data = info_no_urls\<rparr>))"

definition env_no_urls :: env where
  "env_no_urls = demo_env\<lparr>tikwm := tikwm_no_urls\<rparr>"

definition media_gone :: "string \<Rightarrow> nat \<times> bytes fetch_outcome" where
  "media_gone u = (7, Responds 404 ''Not Found'' [])"

definition env_media_gone :: env where
  "env_media_gone = demo_env\<lparr>media := media_gone\<rparr>"

section \<open>Unfolding the model\<close>

lemmas io_defs = returnM_def throwM_def bindM_def thenM_def catchM_def

lemmas world_defs = Date_now_def elapse_def outbound_def console_line_def
  access_def readFile_def writeFile_def mkdir_def unlink_def settle_def fetch_def
  fetch_with_timeout_def json_of_def

lemmas cache_defs = CACHE_DIR_def initCacheDir_def getCacheKey_def extension_of_def
  cachedFile_def media_result_def cache_lookup_def cache_store_def join_def

lemmas tikwm_defs = encodeURIComponent_def getVideoInfo_tikwm_def choose_url_def download_miss_tikwm_def
  downloadMedia_tikwm_def response_ok_def or_else_def new_Error_def

lemmas ytdlp_defs = path_string_def proc_writes_def spawn_ytdlp_def getVideoInfo_ytdlp_def
  tempDir_def download_args_def download_miss_ytdlp_def downloadMedia_ytdlp_def new_Error_def

lemmas request_defs = destructure_url_def flag_def with_valid_url_def invalid_response_def
  TIKTOK_URL_PATTERN_test_def TIKTOK_URL_PATTERN_def

lemmas caption_defs = liftW_def stamp_def the_timing_def set_total_def with_timing_def
  caption_resolve_def caption_dispatch_def caption_catch_def caption_try_def caption_def
  caption_tikwm_def caption_ytdlp_def resolver_tikwm_def resolver_ytdlp_def timing0_def
  timeout_response_def TimeoutError_def

lemmas demo_defs = demo_info_def demo_yt_info_def demo_tikwm_def demo_media_def demo_whisper_def
  demo_ytdlp_def demo_key_def no_fault_def demo_env_def no_files_def demo_world_def demo_url_def
  demo_query_def demo_req_def surrogate_url_def req_surrogate_def req_bad_url_def req_no_url_def req_null_def req_empty_body_def
  EACCES_def write_fault_def read_fault_def env_write_fault_def env_read_fault_def
  cached_files_def world_cached_def tikwm_refuses_def ytdlp_fails_def env_provider_down_def
  whisper_silent_def whisper_broken_def env_worker_silent_def env_worker_broken_def
  instant_tikwm_def instant_media_def instant_whisper_def instant_ytdlp_def env_instant_def
  info_no_urls_def tikwm_no_urls_def env_no_urls_def media_gone_def env_media_gone_def

section \<open>POST /caption: how the handler runs\<close>

lemma test_nonempty: "TIKTOK_URL_PATTERN_test u \<Longrightarrow> u \<noteq> []"
  by (auto simp: TIKTOK_URL_PATTERN_test_def TIKTOK_URL_PATTERN_def)

lemma caption_valid:
  "body req = Json_value (Some u) \<Longrightarrow> TIKTOK_URL_PATTERN_test u \<Longrightarrow>
   caption R E req w =
     with_timing (timing0 (now w))
       (catchM (caption_try R E u (flag req ''audio_only'') (flag req ''debug''))
               (caption_catch (flag req ''debug''))) w"
  by (simp add: caption_def destructure_url_def with_valid_url_def io_defs Date_now_def Let_def
      test_nonempty)

lemma caption_catch_run:
  "caption_catch d e (t, w) =
     (Inr (if exn_name e = ''TimeoutError''
           then timeout_response
                  ''Request timed out. The video might be too long or the transcription service is slow.''
                  ''Please try again or use a shorter video.'' d t (now w)
           else if exn_name e = ''AbortError''
           then timeout_response ''Request was aborted due to timeout.''
                  ''The operation took longer than expected.'' d t (now w)
           else JsonResponse 500 (JObj [(''error'', JStr ''An internal server error occurred.'')])),
      (t, w\<lparr>console := console w @ [(Err, exn_message e)]\<rparr>))"
  by (simp add: caption_catch_def io_defs liftW_def console_line_def Date_now_def the_timing_def)

lemma dispatch_timeout:
  assumes "whisper E (buffer m) (filename m) (contentType m) = (d, out)"
    and "d = Never \<or> (\<exists>ms. d = After ms \<and> 120000 \<le> ms)"
  shows "caption_dispatch R E u ao dbg (metadata, m) (t, w) =
     (Inl TimeoutError,
      (t\<lparr>transcribeStart := now w\<rparr>,
       w\<lparr>calls := calls w @ [WhisperPost (buffer m) (filename m) (contentType m)],
         now := now w + 120000\<rparr>))"
  using assms
  by (auto simp: caption_dispatch_def io_defs liftW_def stamp_def fetch_with_timeout_def
      outbound_def elapse_def Let_def)

lemma dispatch_not_ok:
  assumes "whisper E (buffer m) (filename m) (contentType m) = (After ms, Responds st txt b)"
    and "ms < 120000" and "\<not> response_ok st"
  shows "caption_dispatch R E u ao dbg (metadata, m) (t, w) =
     (Inr (JsonResponse 500 (JObj [(''error'', JStr ''Transcription service failed.''),
                                   (''details'', JStr (body_text b))])),
      (t\<lparr>transcribeStart := now w\<rparr>,
       w\<lparr>calls := calls w @ [WhisperPost (buffer m) (filename m) (contentType m)],
         now := now w + ms,
         console := console w @ [(Err, ''Whisper API Error:'')]\<rparr>))"
  using assms
  by (simp add: caption_dispatch_def io_defs liftW_def stamp_def fetch_with_timeout_def
      outbound_def elapse_def settle_def console_line_def Let_def)

lemma caption_worker_timeout:
  assumes "body req = Json_value (Some u)" and "TIKTOK_URL_PATTERN_test u"
    and "caption_resolve R E u (flag req ''audio_only'') (timing0 (now w), w) = (Inr (metadata, m), (t, w1))"
    and "whisper E (buffer m) (filename m) (contentType m) = (d, out)"
    and "d = Never \<or> (\<exists>ms. d = After ms \<and> 120000 \<le> ms)"
  shows "caption R E req w =
     (Inr (timeout_response
             ''Request timed out. The video might be too long or the transcription service is slow.''
             ''Please try again or use a shorter video.'' (flag req ''debug'')
             (t\<lparr>transcribeStart := now w1\<rparr>) (now w1 + 120000)),
      w1\<lparr>calls := calls w1 @ [WhisperPost (buffer m) (filename m) (contentType m)],
         now := now w1 + 120000,
         console := console w1 @ [(Err, ''The operation timed out.'')]\<rparr>)"
  using assms(3)
  by (simp add: caption_valid [OF assms(1,2)] with_timing_def caption_try_def io_defs
      dispatch_timeout [OF assms(4,5)] caption_catch_run TimeoutError_def)

lemma caption_worker_not_ok:
  assumes "body req = Json_value (Some u)" and "TIKTOK_URL_PATTERN_test u"
    and "caption_resolve R E u (flag req ''audio_only'') (timing0 (now w), w) = (Inr (metadata, m), (t, w1))"
    and "whisper E (buffer m) (filename m) (contentType m) = (After ms, Responds st txt b)"
    and "ms < 120000" and "\<not> response_ok st"
  shows "caption R E req w =
     (Inr (JsonResponse 500 (JObj [(''error'', JStr ''Transcription service failed.''),
                                   (''details'', JStr (body_text b))])),
      w1\<lparr>calls := calls w1 @ [WhisperPost (buffer m) (filename m) (contentType m)],
         now := now w1 + ms,
         console := console w1 @ [(Err, ''Whisper API Error:'')]\<rparr>)"
  using assms(3)
  by (simp add: caption_valid [OF assms(1,2)] with_timing_def caption_try_def io_defs
      dispatch_not_ok [OF assms(4,5,6)])

lemma caption_resolve_failure:
  assumes "body req = Json_value (Some u)" and "TIKTOK_URL_PATTERN_test u"
    and "caption_resolve R E u (flag req ''audio_only'') (timing0 (now w), w) = (Inl e, (t, w1))"
    and "exn_name e \<noteq> ''TimeoutError''" and "exn_name e \<noteq> ''AbortError''"
  shows "caption R E req w =
     (Inr (JsonResponse 500 (JObj [(''error'', JStr ''An internal server error occurred.'')])),
      w1\<lparr>console := console w1 @ [(Err, exn_message e)]\<rparr>)"
  using assms(3,4,5)
  by (simp add: caption_valid [OF assms(1,2)] with_timing_def caption_try_def io_defs
      caption_catch_run)

lemma demo_valid: "TIKTOK_URL_PATTERN_test demo_url"
  by (simp add: request_defs demo_url_def)

lemma demo_flags: "flag demo_req ''audio_only''" "flag demo_req ''debug''"
  by (simp_all add: flag_def demo_req_def demo_query_def)

section \<open>The bound on the transcription call\<close>

text \<open>
  Claim C2. In a /caption request whose URL is valid and whose metadata and media steps
  succeeded, the upload to the transcription worker runs under a bound of 120000
  milliseconds from submission. When the worker never answers, or answers only after the
  bound, the call is aborted at the bound (the clock stands at submission plus 120000)
  with a \<^verbatim>\<open>TimeoutError\<close>, and the response has status 408. When the worker answers in
  time with a status outside 200 to 299, the response has status 500 and carries the
  worker's body text as \<^verbatim>\<open>details\<close>.
\<close>

theorem C2_transcription_timeout:
  assumes "body req = Json_value (Some u)" and "TIKTOK_URL_PATTERN_test u"
    and "caption_resolve resolver_tikwm E u (flag req ''audio_only'') (timing0 (now w), w)
           = (Inr (metadata, m), (t, w1))"
    and "whisper E (buffer m) (filename m) (contentType m) = (d, out)"
  shows
    "((d = Never \<or> (\<exists>ms. d = After ms \<and> 120000 \<le> ms)) \<longrightarrow>
        caption_tikwm E req w =
          (Inr (timeout_response
                  ''Request timed out. The video might be too long or the transcription service is slow.''
                  ''Please try again or use a shorter video.'' (flag req ''debug'')
                  (t\<lparr>transcribeStart := now w1\<rparr>) (now w1 + 120000)),
           w1\<lparr>calls := calls w1 @ [WhisperPost (buffer m) (filename m) (contentType m)],
              now := now w1 + 120000,
              console := console w1 @ [(Err, ''The operation timed out.'')]\<rparr>)
        \<and> status (timeout_response
                  ''Request timed out. The video might be too long or the transcription service is slow.''
                  ''Please try again or use a shorter video.'' (flag req ''debug'')
                  (t\<lparr>transcribeStart := now w1\<rparr>) (now w1 + 120000)) = 408)
     \<and> (\<forall>ms st txt b.
          d = After ms \<and> ms < 120000 \<and> out = Responds st txt b \<and> \<not> response_ok st \<longrightarrow>
          caption_tikwm E req w =
            (Inr (JsonResponse 500 (JObj [(''error'', JStr ''Transcription service failed.''),
                                          (''details'', JStr (body_text b))])),
             w1\<lparr>calls := calls w1 @ [WhisperPost (buffer m) (filename m) (contentType m)],
                now := now w1 + ms,
                console := console w1 @ [(Err, ''Whisper API Error:'')]\<rparr>))"
proof -
  have late: "caption_tikwm E req w =
          (Inr (timeout_response
                  ''Request timed out. The video might be too long or the transcription service is slow.''
                  ''Please try again or use a shorter video.'' (flag req ''debug'')
                  (t\<lparr>transcribeStart := now w1\<rparr>) (now w1 + 120000)),
           w1\<lparr>calls := calls w1 @ [WhisperPost (buffer m) (filename m) (contentType m)],
              now := now w1 + 120000,
              console := console w1 @ [(Err, ''The operation timed out.'')]\<rparr>)"
    if "d = Never \<or> (\<exists>ms. d = After ms \<and> 120000 \<le> ms)"
    unfolding caption_tikwm_def
    by (rule caption_worker_timeout [OF assms(1,2,3,4) that])
  have st408: "status (timeout_response
                  ''Request timed out. The video might be too long or the transcription service is slow.''
                  ''Please try again or use a shorter video.'' (flag req ''debug'')
                  (t\<lparr>transcribeStart := now w1\<rparr>) (now w1 + 120000)) = 408"
    by (simp add: status_def timeout_response_def)
  have part2: "\<forall>ms st txt b.
          d = After ms \<and> ms < 120000 \<and> out = Responds st txt b \<and> \<not> response_ok st \<longrightarrow>
          caption_tikwm E req w =
            (Inr (JsonResponse 500 (JObj [(''error'', JStr ''Transcription service failed.''),
                                          (''details'', JStr (body_text b))])),
             w1\<lparr>calls := calls w1 @ [WhisperPost (buffer m) (filename m) (contentType m)],
                now := now w1 + ms,
                console := console w1 @ [(Err, ''Whisper API Error:'')]\<rparr>)"
  proof (intro allI impI)
    fix ms0 st0 txt0 b0
    assume h: "d = After ms0 \<and> ms0 < 120000 \<and> out = Responds st0 txt0 b0 \<and> \<not> response_ok st0"
    from h assms(4)
    have wh: "whisper E (buffer m) (filename m) (contentType m) = (After ms0, Responds st0 txt0 b0)"
      by simp
    from h have lt: "ms0 < 120000" and nok: "\<not> response_ok st0" by simp_all
    show "caption_tikwm E req w =
            (Inr (JsonResponse 500 (JObj [(''error'', JStr ''Transcription service failed.''),
                                          (''details'', JStr (body_text b0))])),
             w1\<lparr>calls := calls w1 @ [WhisperPost (buffer m) (filename m) (contentType m)],
                now := now w1 + ms0,
                console := console w1 @ [(Err, ''Whisper API Error:'')]\<rparr>)"
      unfolding caption_tikwm_def
      by (rule caption_worker_not_ok [OF assms(1,2,3) wh lt nok])
  qed
  have part1: "(d = Never \<or> (\<exists>ms. d = After ms \<and> 120000 \<le> ms)) \<longrightarrow>
        caption_tikwm E req w =
          (Inr (timeout_response
                  ''Request timed out. The video might be too long or the transcription service is slow.''
                  ''Please try again or use a shorter video.'' (flag req ''debug'')
                  (t\<lparr>transcribeStart := now w1\<rparr>) (now w1 + 120000)),
           w1\<lparr>calls := calls w1 @ [WhisperPost (buffer m) (filename m) (contentType m)],
              now := now w1 + 120000,
              console := console w1 @ [(Err, ''The operation timed out.'')]\<rparr>)
        \<and> status (timeout_response
                  ''Request timed out. The video might be too long or the transcription service is slow.''
                  ''Please try again or use a shorter video.'' (flag req ''debug'')
                  (t\<lparr>transcribeStart := now w1\<rparr>) (now w1 + 120000)) = 408"
    by (rule impI, rule conjI, erule late, rule st408)
  from part1 part2 show ?thesis by (rule conjI)
qed

theorem C2_transcription_timeout_witness:
  "map_sum id status (fst (caption_tikwm env_worker_silent demo_req demo_world)) = Inr 408
   \<and> fst (caption_tikwm env_worker_broken demo_req demo_world)
       = Inr (JsonResponse 500 (JObj [(''error'', JStr ''Transcription service failed.''),
                                      (''details'', JStr ''model not loaded'')]))"
proof -
  have b: "body demo_req = Json_value (Some demo_url)" by (simp add: demo_req_def)
  obtain metadata m t w1 where r1:
    "caption_resolve resolver_tikwm env_worker_silent demo_url (flag demo_req ''audio_only'')
       (timing0 (now demo_world), demo_world) = (Inr (metadata, m), (t, w1))"
    by (simp add: flag_def caption_defs io_defs world_defs cache_defs tikwm_defs demo_defs Let_def)
  have s1: "whisper env_worker_silent (buffer m) (filename m) (contentType m)
              = (Never, Rejects (Exn ''TypeError'' ''fetch failed''))"
    by (simp add: env_worker_silent_def whisper_silent_def)
  obtain metadata' m' t' w1' where r2:
    "caption_resolve resolver_tikwm env_worker_broken demo_url (flag demo_req ''audio_only'')
       (timing0 (now demo_world), demo_world) = (Inr (metadata', m'), (t', w1'))"
    by (simp add: flag_def caption_defs io_defs world_defs cache_defs tikwm_defs demo_defs Let_def)
  have s2: "whisper env_worker_broken (buffer m') (filename m') (contentType m')
              = (After 11, Responds 503 ''Service Unavailable''
                  \<lparr>body_text = ''model not loaded'',
                   body_json = ParseThrows (Exn ''SyntaxError'' ''Unexpected token'')\<rparr>)"
    by (simp add: env_worker_broken_def whisper_broken_def)
  from C2_transcription_timeout [OF b demo_valid r1 s1] C2_transcription_timeout [OF b demo_valid r2 s2]
  show ?thesis by (simp add: response_ok_def)
qed

section \<open>The record of outbound calls\<close>

text \<open>
  Every operation of the model only appends to the record of outbound calls, so a call
  that was made stays visible in the final world.
\<close>

named_theorems grows

lemma grows_returnM [grows]: "grows_on p (returnM x)"
  by (simp add: grows_on_def returnM_def)

lemma grows_throwM [grows]: "grows_on p (throwM e)"
  by (simp add: grows_on_def throwM_def)

lemma grows_bindM [grows]:
  assumes "grows_on p m" and "\<And>x. grows_on p (f x)"
  shows "grows_on p (bindM m f)"
  unfolding grows_on_def
proof
  fix s
  obtain r s1 where ms: "m s = (r, s1)" by (cases "m s")
  from assms(1) ms have a: "prefix (calls (p s)) (calls (p s1))"
    by (auto simp: grows_on_def dest: spec [of _ s])
  show "prefix (calls (p s)) (calls (p (snd (bindM m f s))))"
  proof (cases r)
    case (Inl e)
    with ms a show ?thesis by (simp add: bindM_def)
  next
    case (Inr x)
    from assms(2) [of x] have "prefix (calls (p s1)) (calls (p (snd (f x s1))))"
      by (simp add: grows_on_def)
    with a ms Inr show ?thesis
      by (auto simp: bindM_def intro: prefix_order.trans)
  qed
qed

lemma grows_thenM [grows]: "grows_on p m \<Longrightarrow> grows_on p k \<Longrightarrow> grows_on p (thenM m k)"
  by (simp add: thenM_def grows_bindM)

lemma grows_catchM [grows]:
  assumes "grows_on p m" and "\<And>e. grows_on p (h e)"
  shows "grows_on p (catchM m h)"
  unfolding grows_on_def
proof
  fix s
  obtain r s1 where ms: "m s = (r, s1)" by (cases "m s")
  from assms(1) ms have a: "prefix (calls (p s)) (calls (p s1))"
    by (auto simp: grows_on_def dest: spec [of _ s])
  show "prefix (calls (p s)) (calls (p (snd (catchM m h s))))"
  proof (cases r)
    case (Inr x)
    with ms a show ?thesis by (simp add: catchM_def)
  next
    case (Inl e)
    from assms(2) [of e] have "prefix (calls (p s1)) (calls (p (snd (h e s1))))"
      by (simp add: grows_on_def)
    with a ms Inl show ?thesis
      by (auto simp: catchM_def intro: prefix_order.trans)
  qed
qed

lemma grows_world_ops [grows]:
  "grows_on id Date_now" "grows_on id (elapse n)" "grows_on id (outbound c)"
  "grows_on id (console_line l x)" "grows_on id (access E q)" "grows_on id (readFile E q)"
  "grows_on id (writeFile E q b)" "grows_on id (mkdir E q)" "grows_on id (unlink E q)"
  "grows_on id (proc_writes dir stem out)"
  by (auto simp: grows_on_def world_defs proc_writes_def
      split: option.splits node.splits proc_outcome.splits prod.splits)

lemma grows_settle [grows]: "grows_on id (settle r)"
  by (cases r) (simp_all add: settle_def grows)

lemma grows_json_of [grows]: "grows_on p (json_of b)"
  by (cases b) (simp_all add: json_of_def grows)

lemma grows_fetch [grows]: "grows_on id (fetch c r)"
  by (simp add: fetch_def grows)

lemma grows_fetch_with_timeout [grows]: "grows_on id (fetch_with_timeout c n r)"
  by (cases "fst r") (simp_all add: fetch_with_timeout_def grows)

lemma grows_cache [grows]:
  "grows_on id (initCacheDir E)" "grows_on id (cache_lookup E u ao)"
  "grows_on id (cache_store E u ao b)"
  by (simp_all add: initCacheDir_def cache_lookup_def cache_store_def grows)

lemma grows_encodeURIComponent [grows]: "grows_on p (encodeURIComponent s)"
  by (simp add: encodeURIComponent_def grows)

lemma grows_getVideoInfo_tikwm [grows]: "grows_on id (getVideoInfo_tikwm E u)"
  by (auto simp: getVideoInfo_tikwm_def Let_def intro!: grows)

lemma grows_download_miss_tikwm [grows]: "grows_on id (download_miss_tikwm E u ao)"
  by (auto simp: download_miss_tikwm_def intro!: grows split: option.splits)


lemma grows_spawn_ytdlp [grows]: "grows_on id (spawn_ytdlp E args)"
  by (simp add: spawn_ytdlp_def grows)

lemma grows_getVideoInfo_ytdlp [grows]: "grows_on id (getVideoInfo_ytdlp E u)"
  by (auto simp: getVideoInfo_ytdlp_def intro!: grows split: proc_outcome.splits parsed.splits)

lemma grows_download_miss_ytdlp [grows]: "grows_on id (download_miss_ytdlp E u ao)"
  by (auto simp: download_miss_ytdlp_def Let_def intro!: grows split: proc_outcome.splits)


lemma grows_liftW [grows]:
  assumes "grows_on id m"
  shows "grows_on snd (liftW m)"
  unfolding grows_on_def
proof
  fix s :: "timing \<times> world"
  from assms have "prefix (calls (snd s)) (calls (snd (m (snd s))))"
    by (simp add: grows_on_def)
  then show "prefix (calls (snd s)) (calls (snd (snd (liftW m s))))"
    by (cases "m (snd s)") (simp add: liftW_def)
qed

lemma grows_timing_ops [grows]:
  "grows_on snd (stamp f)" "grows_on snd the_timing" "grows_on snd (set_total d)"
  by (simp_all add: grows_on_def stamp_def the_timing_def set_total_def)

lemma grows_caption_dispatch [grows]: "grows_on snd (caption_dispatch R E u ao d mm)"
  by (auto simp: caption_dispatch_def Let_def intro!: grows)

lemma grows_caption_catch [grows]: "grows_on snd (caption_catch d e)"
  by (auto simp: caption_catch_def intro!: grows)















section \<open>URL validation\<close>




section \<open>Error responses and the debug block\<close>

text \<open>
  Claim C5 says that every failing /caption request made with \<^verbatim>\<open>debug=true\<close> is answered
  with the partial timing and the stage of the failure. The \<^verbatim>\<open>catch\<close> block computes
  the partial timing for every error ("Calculate partial timing for debug even on
  error") and knows three stages, but only the two timeout branches put them into the
  response. What the code does with \<^verbatim>\<open>debug=true\<close>: when the provider refuses the URL
  (either variant) the response is the bare 500 object with no \<^verbatim>\<open>debug\<close> field; when the
  worker answers 503 the response is the 500 object with \<^verbatim>\<open>details\<close> and no \<^verbatim>\<open>debug\<close>
  field; only when the worker times out does the 408 response carry \<^verbatim>\<open>debug.failedAt\<close>.
\<close>

theorem C5_failure_response_omits_debug:
  "flag demo_req ''debug'' \<and>
   fst (caption_tikwm env_provider_down demo_req demo_world)
     = Inr (JsonResponse 500 (JObj [(''error'', JStr ''An internal server error occurred.'')])) \<and>
   fst (caption_ytdlp env_provider_down demo_req demo_world)
     = Inr (JsonResponse 500 (JObj [(''error'', JStr ''An internal server error occurred.'')])) \<and>
   fst (caption_tikwm env_worker_broken demo_req demo_world)
     = Inr (JsonResponse 500 (JObj [(''error'', JStr ''Transcription service failed.''),
                                    (''details'', JStr ''model not loaded'')])) \<and>
   map_sum id status (fst (caption_tikwm env_worker_silent demo_req demo_world)) = Inr 408 \<and>
   map_sum id (\<lambda>r. body_field r [''debug'', ''failedAt''])
     (fst (caption_tikwm env_worker_silent demo_req demo_world)) = Inr (Some (JStr ''transcription''))"
proof -
  have b: "body demo_req = Json_value (Some demo_url)" by (simp add: demo_req_def)
  have t: "caption_resolve resolver_tikwm env_provider_down demo_url (flag demo_req ''audio_only'')
       (timing0 (now demo_world), demo_world)
     = (Inl (new_Error ''Failed to get video info from tikwm: tikwm API error: Url parsing is failed!''),
        ((timing0 1000)\<lparr>metadataStart := 1000\<rparr>,
         demo_world\<lparr>calls := [TikwmApi demo_url], now := 1005\<rparr>))"
    by (simp add: flag_def caption_defs io_defs world_defs tikwm_defs demo_defs Let_def)
  have y: "caption_resolve resolver_ytdlp env_provider_down demo_url (flag demo_req ''audio_only'')
       (timing0 (now demo_world), demo_world)
     = (Inl (new_Error ''yt-dlp failed: ERROR: Unable to extract''),
        ((timing0 1000)\<lparr>metadataStart := 1000\<rparr>,
         demo_world\<lparr>calls := [YtDlp [''--dump-json'', ''--no-download'', demo_url]], now := 1003\<rparr>))"
    by (simp add: flag_def caption_defs io_defs world_defs ytdlp_defs demo_defs Let_def)
  have n: "exn_name (new_Error x) \<noteq> ''TimeoutError''" "exn_name (new_Error x) \<noteq> ''AbortError''" for x
    by (simp_all add: new_Error_def)
  have 1: "fst (caption_tikwm env_provider_down demo_req demo_world)
     = Inr (JsonResponse 500 (JObj [(''error'', JStr ''An internal server error occurred.'')]))"
    unfolding caption_tikwm_def
    by (simp add: caption_resolve_failure [OF b demo_valid t n])
  have 2: "fst (caption_ytdlp env_provider_down demo_req demo_world)
     = Inr (JsonResponse 500 (JObj [(''error'', JStr ''An internal server error occurred.'')]))"
    unfolding caption_ytdlp_def
    by (simp add: caption_resolve_failure [OF b demo_valid y n])
  have 3: "fst (caption_tikwm env_worker_broken demo_req demo_world)
     = Inr (JsonResponse 500 (JObj [(''error'', JStr ''Transcription service failed.''),
                                    (''details'', JStr ''model not loaded'')]))"
    by (simp add: flag_def caption_defs io_defs world_defs cache_defs tikwm_defs demo_defs
        request_defs Let_def)
  have 4: "map_sum id status (fst (caption_tikwm env_worker_silent demo_req demo_world)) = Inr 408"
    by (simp add: flag_def caption_defs io_defs world_defs cache_defs tikwm_defs demo_defs
        request_defs status_def Let_def)
  have 5: "map_sum id (\<lambda>r. body_field r [''debug'', ''failedAt''])
     (fst (caption_tikwm env_worker_silent demo_req demo_world)) = Inr (Some (JStr ''transcription''))"
    by (simp add: flag_def caption_defs io_defs world_defs cache_defs tikwm_defs demo_defs
        request_defs body_field_def failedAt_def Let_def)
  from demo_flags(2) 1 2 3 4 5 show ?thesis by simp
qed

section \<open>Derived metrics of the debug block\<close>

lemma dispatch_ok:
  assumes "whisper E (buffer m) (filename m) (contentType m) = (After ms, Responds st txt b)"
    and "ms < 120000" and "response_ok st" and "body_json b = Parsed c"
  shows "caption_dispatch R E u ao dbg (metadata, m) (t, w) =
     (Inr (JsonResponse 200
            (success_json R u ao dbg metadata m c
               (t\<lparr>transcribeStart := now w, transcribeEnd := now w + ms,
                  total := int (now w + ms) - int (start t)\<rparr>))),
      (t\<lparr>transcribeStart := now w, transcribeEnd := now w + ms,
         total := int (now w + ms) - int (start t)\<rparr>,
       w\<lparr>calls := calls w @ [WhisperPost (buffer m) (filename m) (contentType m)],
         now := now w + ms\<rparr>))"
  using assms
  by (simp add: caption_dispatch_def io_defs liftW_def stamp_def fetch_with_timeout_def
      outbound_def elapse_def settle_def json_of_def the_timing_def set_total_def Let_def)

lemma caption_success:
  assumes "body req = Json_value (Some u)" and "TIKTOK_URL_PATTERN_test u"
    and "caption_resolve R E u (flag req ''audio_only'') (timing0 (now w), w) = (Inr (metadata, m), (t, w1))"
    and "whisper E (buffer m) (filename m) (contentType m) = (After ms, Responds st txt b)"
    and "ms < 120000" and "response_ok st" and "body_json b = Parsed c"
  shows "caption R E req w =
     (Inr (JsonResponse 200
            (success_json R u (flag req ''audio_only'') (flag req ''debug'') metadata m c
               (t\<lparr>transcribeStart := now w1, transcribeEnd := now w1 + ms,
                  total := int (now w1 + ms) - int (start t)\<rparr>))),
      w1\<lparr>calls := calls w1 @ [WhisperPost (buffer m) (filename m) (contentType m)],
         now := now w1 + ms\<rparr>)"
  using assms(3)
  by (simp add: caption_valid [OF assms(1,2)] with_timing_def caption_try_def io_defs
      dispatch_ok [OF assms(4,5,6,7)])

lemma toFixed_special:
  "toFixed k NaN = ''NaN''" "toFixed k PosInf = ''Infinity''" "toFixed k NegInf = ''-Infinity''"
  by (simp_all add: toFixed_def)

lemma downloadSpeed_zero:
  "js_div (js_div (js_div (Num (of_nat n)) (js_div (num 0) (Num 1000))) (Num 1024)) (Num 1024)
     = (if n = 0 then NaN else PosInf)"
  by (simp add: num_def)

lemma ratio_zero:
  "js_mul (js_div (num x) (num 0)) (Num 100) = (if x = 0 then NaN else if 0 < x then PosInf else NegInf)"
  by (simp add: num_def)

lemma speed_zero:
  "js_div (Num q) (js_div (num 0) (Num 1000)) = (if q = 0 then NaN else if 0 < q then PosInf else NegInf)"
  by (simp add: num_def)

lemma json_path_append:
  "json_path j ks = Some j' \<Longrightarrow> json_path j (ks @ ks') = json_path j' ks'"
  by (induction j ks rule: json_path.induct) (auto split: option.splits)

text \<open>
  Claim C6. A /caption request with \<^verbatim>\<open>debug=true\<close> whose pipeline succeeds is answered
  with status 200 and a \<^verbatim>\<open>debug\<close> object, whatever the durations are: no derived metric
  traps. The code has no guard; it divides in JavaScript's numbers, where a zero
  denominator gives \<^verbatim>\<open>Infinity\<close>, \<^verbatim>\<open>-Infinity\<close> or \<^verbatim>\<open>NaN\<close>, and \<^verbatim>\<open>toFixed\<close> renders
  these by name. So with a download time of zero the download speed reads
  \<^verbatim>\<open>Infinity MB/s\<close> (\<^verbatim>\<open>NaN MB/s\<close> for an empty buffer), with a transcription time of zero the
  transcription speed reads \<^verbatim>\<open>Infinity\<close>, \<^verbatim>\<open>-Infinity\<close> or \<^verbatim>\<open>NaN\<close> by the sign of the
  media duration, and with a total of zero each share of the breakdown reads \<^verbatim>\<open>NaN%\<close>
  or an infinity. The statement holds for any resolver, so for both variants of the
  handler.
\<close>

theorem C6_debug_metrics_never_trap:
  assumes "body req = Json_value (Some u)" and "TIKTOK_URL_PATTERN_test u"
    and "flag req ''debug''"
    and "caption_resolve R E u (flag req ''audio_only'') (timing0 (now w), w)
           = (Inr (metadata, m), (t, w1))"
    and "whisper E (buffer m) (filename m) (contentType m) = (After ms, Responds st txt b)"
    and "ms < 120000" and "response_ok st" and "body_json b = Parsed c"
    and "tot = int (now w1 + ms) - int (start t)"
    and "metadataTime = int (metadataEnd t) - int (metadataStart t)"
    and "downloadTime = int (downloadEnd t) - int (downloadStart t)"
  shows
    "\<exists>resp w'.
       caption R E req w = (Inr resp, w') \<and> status resp = 200 \<and>
       body_field resp [''debug''] =
         Some (debug_json tot metadataTime downloadTime (int ms) (length (buffer m))
                 (duration R metadata) (flag req ''audio_only'')) \<and>
       (downloadTime = 0 \<longrightarrow>
          body_field resp [''debug'', ''performance'', ''downloadSpeed''] =
            Some (JStr ((if buffer m = [] then ''NaN'' else ''Infinity'') @ '' MB/s''))) \<and>
       (ms = 0 \<longrightarrow>
          (\<forall>q. duration R metadata = Num q \<longrightarrow>
             body_field resp [''debug'', ''performance'', ''transcriptionSpeed''] =
               Some (JStr ((if q = 0 then ''NaN'' else if 0 < q then ''Infinity'' else ''-Infinity'')
                           @ ''x realtime'')))) \<and>
       (tot = 0 \<longrightarrow>
          body_field resp [''debug'', ''breakdown'', ''metadataFetch''] =
            Some (JStr ((if metadataTime = 0 then ''NaN''
                         else if 0 < metadataTime then ''Infinity'' else ''-Infinity'') @ ''%'')) \<and>
          body_field resp [''debug'', ''breakdown'', ''mediaDownload''] =
            Some (JStr ((if downloadTime = 0 then ''NaN''
                         else if 0 < downloadTime then ''Infinity'' else ''-Infinity'') @ ''%'')) \<and>
          body_field resp [''debug'', ''breakdown'', ''transcription''] =
            Some (JStr ((if ms = 0 then ''NaN'' else ''Infinity'') @ ''%'')))"
proof -
  let ?t = "t\<lparr>transcribeStart := now w1, transcribeEnd := now w1 + ms,
               total := int (now w1 + ms) - int (start t)\<rparr>"
  let ?resp = "JsonResponse 200
     (success_json R u (flag req ''audio_only'') (flag req ''debug'') metadata m c ?t)"
  have run: "caption R E req w =
     (Inr ?resp, w1\<lparr>calls := calls w1 @ [WhisperPost (buffer m) (filename m) (contentType m)],
                   now := now w1 + ms\<rparr>)"
    by (rule caption_success [OF assms(1,2,4,5,6,7,8)])
  have st: "status ?resp = 200"
    by (simp add: status_def)
  have dbg: "body_field ?resp [''debug''] =
         Some (debug_json tot metadataTime downloadTime (int ms) (length (buffer m))
                 (duration R metadata) (flag req ''audio_only''))"
    using assms(3) by (simp add: body_field_def success_json_def assms(9,10,11) Let_def)
  have under: "body_field ?resp (''debug'' # ks) =
         json_path (debug_json tot metadataTime downloadTime (int ms) (length (buffer m))
                 (duration R metadata) (flag req ''audio_only'')) ks" for ks
    using json_path_append [of "success_json R u (flag req ''audio_only'') (flag req ''debug'') metadata m c ?t"
        "[''debug'']" _ ks] dbg
    by (simp add: body_field_def)
  have speed: "body_field ?resp [''debug'', ''performance'', ''downloadSpeed''] =
            Some (JStr ((if buffer m = [] then ''NaN'' else ''Infinity'') @ '' MB/s''))"
    if "downloadTime = 0"
    unfolding under by (simp add: that debug_json_def downloadSpeed_zero toFixed_special)
  have realtime: "body_field ?resp [''debug'', ''performance'', ''transcriptionSpeed''] =
               Some (JStr ((if q = 0 then ''NaN'' else if 0 < q then ''Infinity'' else ''-Infinity'')
                           @ ''x realtime''))"
    if "ms = 0" and "duration R metadata = Num q" for q
    unfolding under by (simp add: that debug_json_def speed_zero toFixed_special)
  have share: "body_field ?resp [''debug'', ''breakdown'', ''metadataFetch''] =
            Some (JStr ((if metadataTime = 0 then ''NaN''
                         else if 0 < metadataTime then ''Infinity'' else ''-Infinity'') @ ''%'')) \<and>
          body_field ?resp [''debug'', ''breakdown'', ''mediaDownload''] =
            Some (JStr ((if downloadTime = 0 then ''NaN''
                         else if 0 < downloadTime then ''Infinity'' else ''-Infinity'') @ ''%'')) \<and>
          body_field ?resp [''debug'', ''breakdown'', ''transcription''] =
            Some (JStr ((if ms = 0 then ''NaN'' else ''Infinity'') @ ''%''))"
    if "tot = 0"
    unfolding under by (simp add: that debug_json_def ratio_zero toFixed_special)
  show ?thesis
    apply (rule exI [of _ ?resp])
    apply (rule exI)
    apply (intro conjI impI allI)
           apply (rule run)
          apply (rule st)
         apply (rule dbg)
        apply (erule speed)
       apply (erule realtime, assumption)
      apply (drule share, simp)
     apply (drule share, simp)
    apply (drule share, simp)
    done
qed

theorem C6_debug_metrics_never_trap_witness:
  "\<exists>resp w'.
     caption_tikwm env_instant demo_req demo_world = (Inr resp, w') \<and> status resp = 200 \<and>
     body_field resp [''debug'', ''performance'', ''downloadSpeed''] = Some (JStr ''Infinity MB/s'') \<and>
     body_field resp [''debug'', ''performance'', ''transcriptionSpeed'']
       = Some (JStr ''Infinityx realtime'') \<and>
     body_field resp [''debug'', ''breakdown'', ''metadataFetch''] = Some (JStr ''NaN%'') \<and>
     body_field resp [''debug'', ''breakdown'', ''mediaDownload''] = Some (JStr ''NaN%'') \<and>
     body_field resp [''debug'', ''breakdown'', ''transcription''] = Some (JStr ''NaN%'')"
proof -
  have b: "body demo_req = Json_value (Some demo_url)" by (simp add: demo_req_def)
  obtain metadata m t w1 where r:
    "caption_resolve resolver_tikwm env_instant demo_url (flag demo_req ''audio_only'')
       (timing0 (now demo_world), demo_world) = (Inr (metadata, m), (t, w1))"
    and facts: "buffer m \<noteq> []" "downloadEnd t = downloadStart t"
      "metadataEnd t = metadataStart t" "now w1 = start t" "tk_duration metadata = Num 30"
    by (simp add: flag_def caption_defs io_defs world_defs cache_defs tikwm_defs demo_defs Let_def)
  have wh: "whisper env_instant (buffer m) (filename m) (contentType m)
      = (After 0, Responds 200 ''OK'' \<lparr>body_text = ''{}'', body_json = Parsed ''hello world''\<rparr>)"
    by (simp add: env_instant_def instant_whisper_def demo_whisper_def)
  have ok: "response_ok 200" by (simp add: response_ok_def)
  have js: "body_json \<lparr>body_text = ''{}'', body_json = Parsed ''hello world''\<rparr> = Parsed ''hello world''"
    by simp
  from C6_debug_metrics_never_trap [OF b demo_valid demo_flags(2) r wh _ ok js refl refl refl]
  obtain resp w' where run: "caption resolver_tikwm env_instant demo_req demo_world = (Inr resp, w')"
    and st: "status resp = 200"
    and z1: "int (downloadEnd t) - int (downloadStart t) = 0 \<longrightarrow>
          body_field resp [''debug'', ''performance'', ''downloadSpeed''] =
            Some (JStr ((if buffer m = [] then ''NaN'' else ''Infinity'') @ '' MB/s''))"
    and z2: "(0::nat) = 0 \<longrightarrow>
          (\<forall>q. duration resolver_tikwm metadata = Num q \<longrightarrow>
             body_field resp [''debug'', ''performance'', ''transcriptionSpeed''] =
               Some (JStr ((if q = 0 then ''NaN'' else if 0 < q then ''Infinity'' else ''-Infinity'')
                           @ ''x realtime'')))"
    and z3: "int (now w1 + 0) - int (start t) = 0 \<longrightarrow>
          body_field resp [''debug'', ''breakdown'', ''metadataFetch''] =
            Some (JStr ((if int (metadataEnd t) - int (metadataStart t) = 0 then ''NaN''
                         else if 0 < int (metadataEnd t) - int (metadataStart t) then ''Infinity'' else ''-Infinity'') @ ''%'')) \<and>
          body_field resp [''debug'', ''breakdown'', ''mediaDownload''] =
            Some (JStr ((if int (downloadEnd t) - int (downloadStart t) = 0 then ''NaN''
                         else if 0 < int (downloadEnd t) - int (downloadStart t) then ''Infinity'' else ''-Infinity'') @ ''%'')) \<and>
          body_field resp [''debug'', ''breakdown'', ''transcription''] =
            Some (JStr ((if (0::nat) = 0 then ''NaN'' else ''Infinity'') @ ''%''))"
    by auto
  have d: "duration resolver_tikwm metadata = Num 30"
    by (simp add: resolver_tikwm_def facts)
  from z1 facts have s1: "body_field resp [''debug'', ''performance'', ''downloadSpeed''] = Some (JStr ''Infinity MB/s'')"
    by simp
  from z2 d have s2: "body_field resp [''debug'', ''performance'', ''transcriptionSpeed'']
       = Some (JStr ''Infinityx realtime'')"
    by simp
  from z3 facts have s3: "body_field resp [''debug'', ''breakdown'', ''metadataFetch''] = Some (JStr ''NaN%'') \<and>
     body_field resp [''debug'', ''breakdown'', ''mediaDownload''] = Some (JStr ''NaN%'') \<and>
     body_field resp [''debug'', ''breakdown'', ''transcription''] = Some (JStr ''NaN%'')"
    by simp
  from run st s1 s2 s3 show ?thesis
    unfolding caption_tikwm_def by blast
qed

section \<open>The cache lookup\<close>

lemma cache_lookup_hit:
  assumes "io_fault E Access (cachedFile E u ao) = None"
    and "io_fault E ReadFile (cachedFile E u ao) = None"
    and "fs w (cachedFile E u ao) = Some (File b)"
  shows "cache_lookup E u ao w =
     (Inr (Some (media_result E u ao b True)),
      w\<lparr>console := console w @ [(Log, ''Found cached file for:'')]\<rparr>)"
  using assms
  by (simp add: cache_lookup_def io_defs access_def readFile_def console_line_def)

lemma cache_lookup_miss:
  assumes "io_fault E Access (cachedFile E u ao) \<noteq> None \<or>
           io_fault E ReadFile (cachedFile E u ao) \<noteq> None \<or>
           (\<forall>b. fs w (cachedFile E u ao) \<noteq> Some (File b))"
  shows "\<exists>w'. cache_lookup E u ao w = (Inr None, w') \<and>
           fs w' = fs w \<and> calls w' = calls w \<and> now w' = now w"
  using assms
  by (auto simp: cache_lookup_def io_defs access_def readFile_def console_line_def
      split: option.splits node.splits)

lemma downloadMedia_unfold:
  assumes "initCacheDir E w0 = (Inr (), w)"
  shows "downloadMedia_tikwm E u ao w0 =
           bindM (cache_lookup E u ao)
             (\<lambda>hit. case hit of Some r \<Rightarrow> returnM r | None \<Rightarrow> download_miss_tikwm E u ao) w"
    and "downloadMedia_ytdlp E u ao w0 =
           bindM (cache_lookup E u ao)
             (\<lambda>hit. case hit of Some r \<Rightarrow> returnM r | None \<Rightarrow> download_miss_ytdlp E u ao) w"
  using assms
  by (simp_all add: downloadMedia_tikwm_def downloadMedia_ytdlp_def thenM_def bindM_def)

text \<open>
  Claim C7 says that only a missing file is a miss, and that any other I/O error of the
  existence check or of the read is surfaced as an error. The lookup's \<^verbatim>\<open>catch\<close> is
  bare: with the cache file present and its read failing with \<^verbatim>\<open>EACCES\<close>,
  \<^verbatim>\<open>downloadMedia\<close> does not fail; it downloads the media again and returns the fresh
  bytes with \<^verbatim>\<open>cached = false\<close>.
\<close>

theorem C7_read_error_counterexample:
  "fs world_cached (cachedFile env_read_fault demo_url True) = Some (File [9, 9]) \<and>
   io_fault env_read_fault ReadFile (cachedFile env_read_fault demo_url True) = Some EACCES \<and>
   fst (downloadMedia_tikwm env_read_fault demo_url True world_cached)
     = Inr (media_result env_read_fault demo_url True [1, 2, 3] False) \<and>
   calls (snd (downloadMedia_tikwm env_read_fault demo_url True world_cached))
     = [TikwmApi demo_url, MediaGet ''https://cdn/music'']"
  by (simp add: io_defs world_defs cache_defs tikwm_defs demo_defs)

text \<open>
  Claim C7, as amended. Once the cache directory is in place, the lookup never surfaces
  an error. It is a hit exactly when the existence check succeeds and the read returns
  the file's bytes, and then \<^verbatim>\<open>downloadMedia\<close> returns these bytes with
  \<^verbatim>\<open>cached = true\<close>. In every other case, a missing file as well as any I/O error of
  the existence check or of the read, the lookup is a miss: it changes neither the file
  system nor the record of outbound calls, and \<^verbatim>\<open>downloadMedia\<close> goes on with the
  download. This holds in both variants.
\<close>

theorem C7_lookup_failures_are_misses:
  assumes "initCacheDir E w0 = (Inr (), w)"
  shows
    "(\<forall>b. io_fault E Access (cachedFile E u ao) = None \<and>
          io_fault E ReadFile (cachedFile E u ao) = None \<and>
          fs w (cachedFile E u ao) = Some (File b) \<longrightarrow>
          fst (downloadMedia_tikwm E u ao w0) = Inr (media_result E u ao b True) \<and>
          fst (downloadMedia_ytdlp E u ao w0) = Inr (media_result E u ao b True))
     \<and> (io_fault E Access (cachedFile E u ao) \<noteq> None \<or>
         io_fault E ReadFile (cachedFile E u ao) \<noteq> None \<or>
         (\<forall>b. fs w (cachedFile E u ao) \<noteq> Some (File b)) \<longrightarrow>
          (\<exists>w'. cache_lookup E u ao w = (Inr None, w') \<and>
                fs w' = fs w \<and> calls w' = calls w \<and> now w' = now w \<and>
                downloadMedia_tikwm E u ao w0 = download_miss_tikwm E u ao w' \<and>
                downloadMedia_ytdlp E u ao w0 = download_miss_ytdlp E u ao w'))"
proof (intro conjI allI impI)
  fix b0
  assume h: "io_fault E Access (cachedFile E u ao) = None \<and>
          io_fault E ReadFile (cachedFile E u ao) = None \<and>
          fs w (cachedFile E u ao) = Some (File b0)"
  then have hit: "cache_lookup E u ao w =
     (Inr (Some (media_result E u ao b0 True)),
      w\<lparr>console := console w @ [(Log, ''Found cached file for:'')]\<rparr>)"
    by (simp add: cache_lookup_hit)
  show "fst (downloadMedia_tikwm E u ao w0) = Inr (media_result E u ao b0 True)"
    by (simp add: downloadMedia_unfold(1) [OF assms] bindM_def hit returnM_def)
  show "fst (downloadMedia_ytdlp E u ao w0) = Inr (media_result E u ao b0 True)"
    by (simp add: downloadMedia_unfold(2) [OF assms] bindM_def hit returnM_def)
next
  assume "io_fault E Access (cachedFile E u ao) \<noteq> None \<or>
         io_fault E ReadFile (cachedFile E u ao) \<noteq> None \<or>
         (\<forall>b. fs w (cachedFile E u ao) \<noteq> Some (File b))"
  from cache_lookup_miss [OF this] obtain w' where
    m: "cache_lookup E u ao w = (Inr None, w')" and
    k: "fs w' = fs w" "calls w' = calls w" "now w' = now w" by blast
  have "downloadMedia_tikwm E u ao w0 = download_miss_tikwm E u ao w'"
    "downloadMedia_ytdlp E u ao w0 = download_miss_ytdlp E u ao w'"
    by (simp_all add: downloadMedia_unfold [OF assms] bindM_def m)
  with m k show "\<exists>w'. cache_lookup E u ao w = (Inr None, w') \<and>
                fs w' = fs w \<and> calls w' = calls w \<and> now w' = now w \<and>
                downloadMedia_tikwm E u ao w0 = download_miss_tikwm E u ao w' \<and>
                downloadMedia_ytdlp E u ao w0 = download_miss_ytdlp E u ao w'"
    by blast
qed

theorem C7_lookup_failures_are_misses_witness:
  "fst (downloadMedia_tikwm demo_env demo_url True world_cached)
     = Inr (media_result demo_env demo_url True [9, 9] True) \<and>
   (\<exists>w'. fs w' = fs world_cached \<and> calls w' = calls world_cached \<and>
      downloadMedia_tikwm env_read_fault demo_url True world_cached
        = download_miss_tikwm env_read_fault demo_url True w' \<and>
      downloadMedia_ytdlp env_read_fault demo_url True world_cached
        = download_miss_ytdlp env_read_fault demo_url True w')"
proof -
  have i1: "initCacheDir demo_env world_cached = (Inr (), world_cached)"
    by (simp add: io_defs world_defs cache_defs demo_defs)
  have i2: "initCacheDir env_read_fault world_cached = (Inr (), world_cached)"
    by (simp add: io_defs world_defs cache_defs demo_defs)
  have f1: "io_fault demo_env Access (cachedFile demo_env demo_url True) = None \<and>
          io_fault demo_env ReadFile (cachedFile demo_env demo_url True) = None \<and>
          fs world_cached (cachedFile demo_env demo_url True) = Some (File [9, 9])"
    by (simp add: cache_defs demo_defs)
  have f2: "io_fault env_read_fault ReadFile (cachedFile env_read_fault demo_url True) \<noteq> None"
    by (simp add: cache_defs demo_defs)
  from C7_lookup_failures_are_misses [OF i1, of demo_url True] f1
  have 1: "fst (downloadMedia_tikwm demo_env demo_url True world_cached)
     = Inr (media_result demo_env demo_url True [9, 9] True)"
    by blast
  from C7_lookup_failures_are_misses [OF i2, of demo_url True] f2
  have 2: "\<exists>w'. fs w' = fs world_cached \<and> calls w' = calls world_cached \<and>
      downloadMedia_tikwm env_read_fault demo_url True world_cached
        = download_miss_tikwm env_read_fault demo_url True w' \<and>
      downloadMedia_ytdlp env_read_fault demo_url True world_cached
        = download_miss_ytdlp env_read_fault demo_url True w'"
    by blast
  from 1 2 show ?thesis by (rule conjI)
qed

section \<open>POST /download: the hq parameter\<close>

lemma hq_is_redundant:
  "(if h \<and> truthy a then a else or_else a b) = or_else a b"
  by (simp add: or_else_def)

text \<open>
  Claim C9. The \<^verbatim>\<open>hq\<close> query parameter of POST /download has no observable effect:
  whatever the request, the environment and the world, the handler returns the same
  result (redirect target or error response) and leaves the same world for any two values
  of \<^verbatim>\<open>hq\<close>, present or absent. In the tikwm variant the high-definition URL is already
  the first choice of \<^verbatim>\<open>hdplay || play || wmplay\<close>; in the yt-dlp variant the parameter
  is read and never used.
\<close>

theorem C9_hq_noninterference:
  "download_tikwm E (req\<lparr>query := (query req)(''hq'' := a)\<rparr>) w
     = download_tikwm E (req\<lparr>query := (query req)(''hq'' := b)\<rparr>) w
   \<and> download_ytdlp E (req\<lparr>query := (query req)(''hq'' := a)\<rparr>) w
     = download_ytdlp E (req\<lparr>query := (query req)(''hq'' := b)\<rparr>) w"
  by (simp add: download_tikwm_def download_ytdlp_def destructure_url_def Let_def hq_is_redundant)

theorem C9_hq_noninterference_witness:
  "fst (download_tikwm demo_env (demo_req\<lparr>query := (query demo_req)(''hq'' := Some ''true'')\<rparr>) demo_world)
     = Inr (Redirect ''https://cdn/play'')
   \<and> fst (download_tikwm demo_env (demo_req\<lparr>query := (query demo_req)(''hq'' := Some ''false'')\<rparr>) demo_world)
     = Inr (Redirect ''https://cdn/play'')
   \<and> fst (download_ytdlp demo_env (demo_req\<lparr>query := (query demo_req)(''hq'' := Some ''true'')\<rparr>) demo_world)
     = Inr (Redirect ''https://cdn/direct'')
   \<and> fst (download_ytdlp demo_env (demo_req\<lparr>query := (query demo_req)(''hq'' := Some ''false'')\<rparr>) demo_world)
     = Inr (Redirect ''https://cdn/direct'')"
proof -
  have t: "fst (download_tikwm demo_env (demo_req\<lparr>query := (query demo_req)(''hq'' := Some ''true'')\<rparr>) demo_world)
     = Inr (Redirect ''https://cdn/play'')"
    by (simp add: download_tikwm_def io_defs world_defs tikwm_defs request_defs demo_defs Let_def)
  have y: "fst (download_ytdlp demo_env (demo_req\<lparr>query := (query demo_req)(''hq'' := Some ''true'')\<rparr>) demo_world)
     = Inr (Redirect ''https://cdn/direct'')"
    by (simp add: download_ytdlp_def io_defs world_defs ytdlp_defs request_defs demo_defs Let_def)
  from t y C9_hq_noninterference [of demo_env demo_req "Some ''true''" demo_world "Some ''false''"]
  show ?thesis by simp
qed

section \<open>Bodies that are not JSON\<close>

text \<open>
  Claim C10. When the request body is not valid JSON, \<^verbatim>\<open>await c.req.json()\<close> throws
  before the URL is validated: all four handlers end with that error escaping (no
  response, so never the 400 of an invalid URL) and leave the world as it was, so no
  outbound call is made.
\<close>

theorem C10_unparsable_body_escapes:
  "body req = Malformed e \<Longrightarrow>
     caption_tikwm E req w = (Inl e, w) \<and> caption_ytdlp E req w = (Inl e, w) \<and>
     download_tikwm E req w = (Inl e, w) \<and> download_ytdlp E req w = (Inl e, w)"
  by (simp add: caption_tikwm_def caption_ytdlp_def caption_def download_tikwm_def
      download_ytdlp_def destructure_url_def io_defs)

theorem C10_unparsable_body_escapes_witness:
  "caption_tikwm demo_env req_empty_body demo_world
     = (Inl (Exn ''SyntaxError'' ''Unexpected end of JSON input''), demo_world)
   \<and> caption_ytdlp demo_env req_empty_body demo_world
     = (Inl (Exn ''SyntaxError'' ''Unexpected end of JSON input''), demo_world)
   \<and> download_tikwm demo_env req_empty_body demo_world
     = (Inl (Exn ''SyntaxError'' ''Unexpected end of JSON input''), demo_world)
   \<and> download_ytdlp demo_env req_empty_body demo_world
     = (Inl (Exn ''SyntaxError'' ''Unexpected end of JSON input''), demo_world)"
  using C10_unparsable_body_escapes
    [of req_empty_body "Exn ''SyntaxError'' ''Unexpected end of JSON input''" demo_env demo_world]
  by (simp add: req_empty_body_def)

section \<open>A download after a miss\<close>

lemma cache_store_run:
  "cache_store E u ao b w =
     (if io_fault E WriteFile (cachedFile E u ao) = None \<and> fs w (cachedFile E u ao) \<noteq> Some Dir
      then (Inr (), w\<lparr>fs := (fs w)(cachedFile E u ao \<mapsto> File b),
                      console := console w @ [(Log, ''Saved to cache:'')]\<rparr>)
      else (Inr (), w\<lparr>console := console w @ [(Warn, ''Failed to save to cache:'')]\<rparr>))"
  by (auto simp: cache_store_def io_defs writeFile_def console_line_def
      split: option.splits node.splits)

lemma download_miss_tikwm_no_url:
  assumes "getVideoInfo_tikwm E u w = (Inr info, w1)"
    and "\<not> truthy (choose_url info ao)"
  shows "download_miss_tikwm E u ao w = (Inl NoDownloadUrl, w1)"
  using assms
  by (cases "choose_url info ao")
     (simp_all add: download_miss_tikwm_def io_defs NoDownloadUrl_def new_Error_def)

lemma download_miss_tikwm_bad_status:
  assumes "getVideoInfo_tikwm E u w = (Inr info, w1)"
    and "choose_url info ao = Some d" and "d \<noteq> []"
    and "media E d = (ms, Responds st txt b)" and "\<not> response_ok st"
  shows "download_miss_tikwm E u ao w =
     (Inl (DownloadFailed st txt), w1\<lparr>calls := calls w1 @ [MediaGet d], now := now w1 + ms\<rparr>)"
  using assms
  by (simp add: download_miss_tikwm_def io_defs fetch_def outbound_def elapse_def settle_def
      DownloadFailed_def new_Error_def)

lemma download_miss_tikwm_transport:
  assumes "getVideoInfo_tikwm E u w = (Inr info, w1)"
    and "choose_url info ao = Some d" and "d \<noteq> []"
    and "media E d = (ms, Rejects e)"
  shows "download_miss_tikwm E u ao w =
     (Inl (new_Error (''Failed to download media: '' @ exn_message e)),
      w1\<lparr>calls := calls w1 @ [MediaGet d], now := now w1 + ms\<rparr>)"
  using assms
  by (simp add: download_miss_tikwm_def io_defs fetch_def outbound_def elapse_def settle_def)

lemma download_miss_tikwm_ok:
  assumes "getVideoInfo_tikwm E u w = (Inr info, w1)"
    and "choose_url info ao = Some d" and "d \<noteq> []"
    and "media E d = (ms, Responds st txt b)" and "response_ok st"
  shows "download_miss_tikwm E u ao w =
     (Inr (media_result E u ao b False),
      snd (cache_store E u ao b (w1\<lparr>calls := calls w1 @ [MediaGet d], now := now w1 + ms\<rparr>)))"
  using assms
  by (simp add: download_miss_tikwm_def io_defs fetch_def outbound_def elapse_def settle_def
      cache_store_run)

lemma choose_url_priority:
  "choose_url info ao =
     (if ao then music info
      else if truthy (hdplay info) then hdplay info
      else if truthy (play info) then play info
      else wmplay info)"
  by (simp add: choose_url_def or_else_def)

lemma miss_unfold:
  assumes "initCacheDir E w0 = (Inr (), wa)" and "cache_lookup E u ao wa = (Inr None, w)"
  shows "downloadMedia_tikwm E u ao w0 = download_miss_tikwm E u ao w"
    and "downloadMedia_ytdlp E u ao w0 = download_miss_ytdlp E u ao w"
  using assms
  by (simp_all add: downloadMedia_unfold [OF assms(1)] bindM_def)

lemma calls_cache_store: "calls (snd (cache_store E u ao b w)) = calls w"
  by (simp add: cache_store_run)

lemma download_miss_tikwm_calls:
  assumes "getVideoInfo_tikwm E u w = (Inr info, w1)"
    and "choose_url info ao = Some d" and "d \<noteq> []"
  shows "calls (snd (download_miss_tikwm E u ao w)) = calls w1 @ [MediaGet d]"
proof (cases "media E d")
  case (Pair ms out)
  show ?thesis
  proof (cases out)
    case (Rejects e)
    with Pair show ?thesis
      by (simp add: download_miss_tikwm_transport [OF assms])
  next
    case (Responds st tx b)
    with Pair show ?thesis
      by (cases "response_ok st")
         (simp_all add: download_miss_tikwm_ok [OF assms] download_miss_tikwm_bad_status [OF assms]
           calls_cache_store)
  qed
qed

lemma cache_not_tmp: "cachedFile E u ao \<noteq> join tempDir x"
  by (cases "cwd E") (simp_all add: cachedFile_def CACHE_DIR_def join_def tempDir_def)

lemma cache_not_dir: "cachedFile E u ao \<noteq> CACHE_DIR E"
  by (simp add: cachedFile_def join_def)

lemma dir_not_tmp: "CACHE_DIR E \<noteq> join tempDir (CHR ''t'' # x)"
  by (cases "cwd E"; cases "tl (cwd E)")
     (auto simp: CACHE_DIR_def join_def tempDir_def)

lemma download_miss_ytdlp_ok:
  assumes "ytdlp E (download_args (join tempDir (''tiktok_'' @ show_nat (now w) @ ''.%(ext)s'')) ao u)
             = (ms, Closes 0 out err (Some (extension_of ao, b)))"
    and "io_fault E ReadFile (join tempDir (''tiktok_'' @ show_nat (now w) @ ''.'' @ extension_of ao)) = None"
  shows "fst (download_miss_ytdlp E u ao w) = Inr (media_result E u ao b False)"
    and "io_fault E WriteFile (cachedFile E u ao) \<noteq> None \<or> fs w (cachedFile E u ao) = Some Dir \<Longrightarrow>
           console (snd (download_miss_ytdlp E u ao w)) = console w @ [(Warn, ''Failed to save to cache:'')]
           \<and> fs (snd (download_miss_ytdlp E u ao w)) (cachedFile E u ao) = fs w (cachedFile E u ao)"
    and "io_fault E WriteFile (cachedFile E u ao) = None \<and> fs w (cachedFile E u ao) \<noteq> Some Dir \<Longrightarrow>
           fs (snd (download_miss_ytdlp E u ao w)) (cachedFile E u ao) = Some (File b)"
    and "calls (snd (download_miss_ytdlp E u ao w))
           = calls w @ [YtDlp (download_args (join tempDir (''tiktok_'' @ show_nat (now w) @ ''.%(ext)s'')) ao u)]"
  using assms
  by (auto simp: cache_not_tmp cache_not_tmp [THEN not_sym] download_miss_ytdlp_def spawn_ytdlp_def proc_writes_def io_defs Date_now_def
      outbound_def elapse_def readFile_def unlink_def cache_store_run Let_def
      split: option.splits)

section \<open>Which URL is downloaded\<close>

text \<open>
  Claim C4 (tikwm variant). On a cache miss, once the provider returned the metadata,
  \<^verbatim>\<open>downloadMedia\<close> selects the audio track's URL (\<^verbatim>\<open>music\<close>) in audio-only mode and
  otherwise the first non-empty URL among high-definition (\<^verbatim>\<open>hdplay\<close>), standard
  (\<^verbatim>\<open>play\<close>) and watermarked (\<^verbatim>\<open>wmplay\<close>). When the selected URL is absent or empty, in
  particular when the metadata holds no URL at all, it fails with the error that the
  specification calls \<^verbatim>\<open>NoDownloadUrl\<close>, before any download. Otherwise the selected URL
  is the one it fetches, and that is its only further outbound call; on a response
  status outside 200 to 299 it fails with the error that the specification calls
  \<^verbatim>\<open>DownloadFailed\<close>, and on a status inside it returns the response's bytes with
  \<^verbatim>\<open>cached = false\<close>.
\<close>

theorem C4_download_url_selection:
  assumes "initCacheDir E w0 = (Inr (), wa)" and "cache_lookup E u ao wa = (Inr None, w)"
    and "getVideoInfo_tikwm E u w = (Inr info, w1)"
  shows
    "choose_url info ao =
       (if ao then music info
        else if truthy (hdplay info) then hdplay info
        else if truthy (play info) then play info
        else wmplay info)
     \<and> (\<not> truthy (choose_url info ao) \<longrightarrow>
          downloadMedia_tikwm E u ao w0 = (Inl NoDownloadUrl, w1))
     \<and> (\<not> truthy (music info) \<and> \<not> truthy (hdplay info) \<and> \<not> truthy (play info) \<and>
          \<not> truthy (wmplay info) \<longrightarrow>
          downloadMedia_tikwm E u ao w0 = (Inl NoDownloadUrl, w1))
     \<and> (\<forall>d. choose_url info ao = Some d \<and> d \<noteq> [] \<longrightarrow>
          calls (snd (downloadMedia_tikwm E u ao w0)) = calls w1 @ [MediaGet d] \<and>
          (\<forall>ms st txt b. media E d = (ms, Responds st txt b) \<and> \<not> response_ok st \<longrightarrow>
             fst (downloadMedia_tikwm E u ao w0) = Inl (DownloadFailed st txt)) \<and>
          (\<forall>ms st txt b. media E d = (ms, Responds st txt b) \<and> response_ok st \<longrightarrow>
             fst (downloadMedia_tikwm E u ao w0) = Inr (media_result E u ao b False)))"
proof -
  note run = miss_unfold(1) [OF assms(1,2)]
  have none: "downloadMedia_tikwm E u ao w0 = (Inl NoDownloadUrl, w1)"
    if "\<not> truthy (choose_url info ao)"
    by (simp add: run download_miss_tikwm_no_url [OF assms(3) that])
  have empty: "\<not> truthy (choose_url info ao)"
    if "\<not> truthy (music info) \<and> \<not> truthy (hdplay info) \<and> \<not> truthy (play info) \<and>
          \<not> truthy (wmplay info)"
    using that by (simp add: choose_url_priority)
  have chosen: "calls (snd (downloadMedia_tikwm E u ao w0)) = calls w1 @ [MediaGet d0] \<and>
          (\<forall>ms st txt b. media E d0 = (ms, Responds st txt b) \<and> \<not> response_ok st \<longrightarrow>
             fst (downloadMedia_tikwm E u ao w0) = Inl (DownloadFailed st txt)) \<and>
          (\<forall>ms st txt b. media E d0 = (ms, Responds st txt b) \<and> response_ok st \<longrightarrow>
             fst (downloadMedia_tikwm E u ao w0) = Inr (media_result E u ao b False))"
    if h: "choose_url info ao = Some d0 \<and> d0 \<noteq> []" for d0
  proof -
    from h have c: "choose_url info ao = Some d0" and ne: "d0 \<noteq> []" by simp_all
    have 1: "calls (snd (downloadMedia_tikwm E u ao w0)) = calls w1 @ [MediaGet d0]"
      by (simp add: run download_miss_tikwm_calls [OF assms(3) c ne])
    have 2: "fst (downloadMedia_tikwm E u ao w0) = Inl (DownloadFailed st0 txt0)"
      if "media E d0 = (ms0, Responds st0 txt0 b0) \<and> \<not> response_ok st0" for ms0 st0 txt0 b0
      using that by (simp add: run download_miss_tikwm_bad_status [OF assms(3) c ne])
    have 3: "fst (downloadMedia_tikwm E u ao w0) = Inr (media_result E u ao b0 False)"
      if "media E d0 = (ms0, Responds st0 txt0 b0) \<and> response_ok st0" for ms0 st0 txt0 b0
      using that by (simp add: run download_miss_tikwm_ok [OF assms(3) c ne])
    from 1 2 3 show ?thesis by blast
  qed
  show ?thesis
    apply (intro conjI)
       apply (rule choose_url_priority)
      apply (rule impI, erule none)
     apply (rule impI, drule empty, erule none)
    apply (intro allI impI)
    apply (erule chosen)
    done
qed

theorem C4_download_url_selection_witness:
  "calls (snd (downloadMedia_tikwm demo_env demo_url False demo_world))
     = [TikwmApi demo_url, MediaGet ''https://cdn/play''] \<and>
   fst (downloadMedia_tikwm demo_env demo_url True demo_world)
     = Inr (media_result demo_env demo_url True [1, 2, 3] False) \<and>
   fst (downloadMedia_tikwm env_no_urls demo_url True demo_world) = Inl NoDownloadUrl \<and>
   fst (downloadMedia_tikwm env_media_gone demo_url True demo_world)
     = Inl (DownloadFailed 404 ''Not Found'')"
proof -
  let ?wa = "\<lambda>E. snd (initCacheDir E demo_world)"
  let ?w = "\<lambda>E ao. snd (cache_lookup E demo_url ao (?wa E))"
  let ?w1 = "\<lambda>E ao. snd (getVideoInfo_tikwm E demo_url (?w E ao))"
  have i: "initCacheDir demo_env demo_world = (Inr (), ?wa demo_env)"
    "initCacheDir env_no_urls demo_world = (Inr (), ?wa env_no_urls)"
    "initCacheDir env_media_gone demo_world = (Inr (), ?wa env_media_gone)"
    by (simp_all add: io_defs world_defs cache_defs demo_defs)
  have l: "cache_lookup demo_env demo_url ao (?wa demo_env) = (Inr None, ?w demo_env ao)"
    "cache_lookup env_no_urls demo_url ao (?wa env_no_urls) = (Inr None, ?w env_no_urls ao)"
    "cache_lookup env_media_gone demo_url ao (?wa env_media_gone) = (Inr None, ?w env_media_gone ao)"
    for ao
    by (simp_all add: io_defs world_defs cache_defs demo_defs)
  have g1: "getVideoInfo_tikwm demo_env demo_url (?w demo_env ao) = (Inr demo_info, ?w1 demo_env ao)" for ao
    by (simp add: io_defs world_defs cache_defs tikwm_defs demo_defs)
  have g2: "getVideoInfo_tikwm env_no_urls demo_url (?w env_no_urls ao)
      = (Inr info_no_urls, ?w1 env_no_urls ao)" for ao
    by (simp add: io_defs world_defs cache_defs tikwm_defs demo_defs)
  have g3: "getVideoInfo_tikwm env_media_gone demo_url (?w env_media_gone ao)
      = (Inr demo_info, ?w1 env_media_gone ao)" for ao
    by (simp add: io_defs world_defs cache_defs tikwm_defs demo_defs)
  have c1: "calls (?w1 demo_env False) = [TikwmApi demo_url]"
    by (simp add: io_defs world_defs cache_defs tikwm_defs demo_defs)
  have u1: "choose_url demo_info False = Some ''https://cdn/play''"
    "choose_url demo_info True = Some ''https://cdn/music''"
    "\<not> truthy (choose_url info_no_urls True)"
    by (simp_all add: choose_url_def or_else_def demo_info_def info_no_urls_def)
  have m1: "media demo_env ''https://cdn/music'' = (7, Responds 200 ''OK'' [1, 2, 3])"
    "media env_media_gone ''https://cdn/music'' = (7, Responds 404 ''Not Found'' [])"
    by (simp_all add: demo_defs)
  have ok: "response_ok 200" "\<not> response_ok 404" by (simp_all add: response_ok_def)
  from C4_download_url_selection [OF i(1) l(1) g1, of False] u1 c1
  have 1: "calls (snd (downloadMedia_tikwm demo_env demo_url False demo_world))
     = [TikwmApi demo_url, MediaGet ''https://cdn/play'']"
    by simp
  from C4_download_url_selection [OF i(1) l(1) g1, of True] u1 m1 ok
  have 2: "fst (downloadMedia_tikwm demo_env demo_url True demo_world)
     = Inr (media_result demo_env demo_url True [1, 2, 3] False)"
    by simp
  from C4_download_url_selection [OF i(2) l(2) g2, of True] u1
  have 3: "fst (downloadMedia_tikwm env_no_urls demo_url True demo_world) = Inl NoDownloadUrl"
    by simp
  from C4_download_url_selection [OF i(3) l(3) g3, of True] u1 m1 ok
  have 4: "fst (downloadMedia_tikwm env_media_gone demo_url True demo_world)
     = Inl (DownloadFailed 404 ''Not Found'')"
    by simp
  from 1 2 3 4 show ?thesis by simp
qed

section \<open>Writing to the cache\<close>

text \<open>
  Claim C8. A failure to write the downloaded bytes into the cache never fails the
  request. On a cache miss, whenever the download itself succeeds (tikwm variant: the
  provider returns metadata with a usable URL and the media host answers with a status
  from 200 to 299; yt-dlp variant: the tool exits with code 0 and its output file is
  read), \<^verbatim>\<open>downloadMedia\<close> returns the downloaded bytes with \<^verbatim>\<open>cached = false\<close>,
  with no assumption on the write. When the write fails (an I/O fault, or a directory in
  the file's place) the cache file is left as it was and the console gets the warning
  line; when it succeeds the cache file holds the bytes.
\<close>

theorem C8_cache_write_is_best_effort:
  assumes "initCacheDir E w0 = (Inr (), wa)" and "cache_lookup E u ao wa = (Inr None, w)"
  shows
    "(\<forall>info w1 d ms st txt b.
        getVideoInfo_tikwm E u w = (Inr info, w1) \<and> choose_url info ao = Some d \<and> d \<noteq> [] \<and>
        media E d = (ms, Responds st txt b) \<and> response_ok st \<longrightarrow>
          fst (downloadMedia_tikwm E u ao w0) = Inr (media_result E u ao b False) \<and>
          (io_fault E WriteFile (cachedFile E u ao) \<noteq> None \<or> fs w1 (cachedFile E u ao) = Some Dir \<longrightarrow>
             fs (snd (downloadMedia_tikwm E u ao w0)) = fs w1 \<and>
             console (snd (downloadMedia_tikwm E u ao w0))
               = console w1 @ [(Warn, ''Failed to save to cache:'')]) \<and>
          (io_fault E WriteFile (cachedFile E u ao) = None \<and> fs w1 (cachedFile E u ao) \<noteq> Some Dir \<longrightarrow>
             fs (snd (downloadMedia_tikwm E u ao w0)) (cachedFile E u ao) = Some (File b)))
     \<and> (\<forall>ms out err b.
        ytdlp E (download_args (join tempDir (''tiktok_'' @ show_nat (now w) @ ''.%(ext)s'')) ao u)
          = (ms, Closes 0 out err (Some (extension_of ao, b))) \<and>
        io_fault E ReadFile (join tempDir (''tiktok_'' @ show_nat (now w) @ ''.'' @ extension_of ao)) = None \<longrightarrow>
          fst (downloadMedia_ytdlp E u ao w0) = Inr (media_result E u ao b False) \<and>
          (io_fault E WriteFile (cachedFile E u ao) \<noteq> None \<or> fs w (cachedFile E u ao) = Some Dir \<longrightarrow>
             console (snd (downloadMedia_ytdlp E u ao w0))
               = console w @ [(Warn, ''Failed to save to cache:'')] \<and>
             fs (snd (downloadMedia_ytdlp E u ao w0)) (cachedFile E u ao) = fs w (cachedFile E u ao)) \<and>
          (io_fault E WriteFile (cachedFile E u ao) = None \<and> fs w (cachedFile E u ao) \<noteq> Some Dir \<longrightarrow>
             fs (snd (downloadMedia_ytdlp E u ao w0)) (cachedFile E u ao) = Some (File b)))"
proof -
  note run = miss_unfold [OF assms]
  have tik: "fst (downloadMedia_tikwm E u ao w0) = Inr (media_result E u ao b0 False) \<and>
          (io_fault E WriteFile (cachedFile E u ao) \<noteq> None \<or> fs w1 (cachedFile E u ao) = Some Dir \<longrightarrow>
             fs (snd (downloadMedia_tikwm E u ao w0)) = fs w1 \<and>
             console (snd (downloadMedia_tikwm E u ao w0))
               = console w1 @ [(Warn, ''Failed to save to cache:'')]) \<and>
          (io_fault E WriteFile (cachedFile E u ao) = None \<and> fs w1 (cachedFile E u ao) \<noteq> Some Dir \<longrightarrow>
             fs (snd (downloadMedia_tikwm E u ao w0)) (cachedFile E u ao) = Some (File b0))"
    if h: "getVideoInfo_tikwm E u w = (Inr info, w1) \<and> choose_url info ao = Some d \<and> d \<noteq> [] \<and>
        media E d = (ms, Responds st tx b0) \<and> response_ok st"
    for info w1 d ms st tx b0
  proof -
    from h have g: "getVideoInfo_tikwm E u w = (Inr info, w1)" and c: "choose_url info ao = Some d"
      and ne: "d \<noteq> []" and m: "media E d = (ms, Responds st tx b0)" and ok: "response_ok st"
      by simp_all
    show ?thesis
      by (auto simp: run download_miss_tikwm_ok [OF g c ne m ok] cache_store_run)
  qed
  have yt: "fst (downloadMedia_ytdlp E u ao w0) = Inr (media_result E u ao b0 False) \<and>
          (io_fault E WriteFile (cachedFile E u ao) \<noteq> None \<or> fs w (cachedFile E u ao) = Some Dir \<longrightarrow>
             console (snd (downloadMedia_ytdlp E u ao w0))
               = console w @ [(Warn, ''Failed to save to cache:'')] \<and>
             fs (snd (downloadMedia_ytdlp E u ao w0)) (cachedFile E u ao) = fs w (cachedFile E u ao)) \<and>
          (io_fault E WriteFile (cachedFile E u ao) = None \<and> fs w (cachedFile E u ao) \<noteq> Some Dir \<longrightarrow>
             fs (snd (downloadMedia_ytdlp E u ao w0)) (cachedFile E u ao) = Some (File b0))"
    if h: "ytdlp E (download_args (join tempDir (''tiktok_'' @ show_nat (now w) @ ''.%(ext)s'')) ao u)
          = (ms, Closes 0 out er (Some (extension_of ao, b0))) \<and>
        io_fault E ReadFile (join tempDir (''tiktok_'' @ show_nat (now w) @ ''.'' @ extension_of ao)) = None"
    for ms out er b0
  proof -
    from h have p: "ytdlp E (download_args (join tempDir (''tiktok_'' @ show_nat (now w) @ ''.%(ext)s'')) ao u)
          = (ms, Closes 0 out er (Some (extension_of ao, b0)))"
      and r: "io_fault E ReadFile (join tempDir (''tiktok_'' @ show_nat (now w) @ ''.'' @ extension_of ao)) = None"
      by simp_all
    from download_miss_ytdlp_ok [OF p r] show ?thesis
      by (simp add: run)
  qed
  show ?thesis
    apply (rule conjI)
     apply (intro allI impI)
     apply (erule tik)
    apply (intro allI impI)
    apply (erule yt)
    done
qed

theorem C8_cache_write_is_best_effort_witness:
  "fst (downloadMedia_tikwm env_write_fault demo_url True demo_world)
     = Inr (media_result env_write_fault demo_url True [1, 2, 3] False) \<and>
   fst (downloadMedia_ytdlp env_write_fault demo_url True demo_world)
     = Inr (media_result env_write_fault demo_url True [1, 2, 3] False) \<and>
   console (snd (downloadMedia_ytdlp env_write_fault demo_url True demo_world))
     = [(Log, ''Created cache directory:''), (Warn, ''Failed to save to cache:'')]"
proof -
  let ?E = env_write_fault
  let ?wa = "snd (initCacheDir ?E demo_world)"
  let ?w = "snd (cache_lookup ?E demo_url True ?wa)"
  let ?w1 = "snd (getVideoInfo_tikwm ?E demo_url ?w)"
  have i: "initCacheDir ?E demo_world = (Inr (), ?wa)"
    by (simp add: io_defs world_defs cache_defs demo_defs)
  have l: "cache_lookup ?E demo_url True ?wa = (Inr None, ?w)"
    by (simp add: io_defs world_defs cache_defs demo_defs)
  have g: "getVideoInfo_tikwm ?E demo_url ?w = (Inr demo_info, ?w1)"
    by (simp add: io_defs world_defs cache_defs tikwm_defs demo_defs)
  have c: "choose_url demo_info True = Some ''https://cdn/music''"
    by (simp add: choose_url_def demo_info_def)
  have m: "media ?E ''https://cdn/music'' = (7, Responds 200 ''OK'' [1, 2, 3])"
    by (simp add: demo_defs)
  have ok: "response_ok 200" by (simp add: response_ok_def)
  have n: "now ?w = 1000" and k: "console ?w = [(Log, ''Created cache directory:'')]"
    by (simp_all add: io_defs world_defs cache_defs demo_defs)
  have y: "ytdlp ?E (download_args (join tempDir (''tiktok_'' @ show_nat (now ?w) @ ''.%(ext)s'')) True demo_url)
      = (9, Closes 0 (ParseThrows (Exn ''SyntaxError'' ''Unexpected end of JSON input'')) []
                 (Some (extension_of True, [1, 2, 3])))"
    by (simp add: download_args_def extension_of_def demo_defs)
  have r: "io_fault ?E ReadFile (join tempDir (''tiktok_'' @ show_nat (now ?w) @ ''.'' @ extension_of True)) = None"
    and f: "io_fault ?E WriteFile (cachedFile ?E demo_url True) \<noteq> None"
    by (simp_all add: demo_defs)
  note C8 = C8_cache_write_is_best_effort [OF i l]
  from C8 g c m ok
  have 1: "fst (downloadMedia_tikwm ?E demo_url True demo_world)
     = Inr (media_result ?E demo_url True [1, 2, 3] False)"
    by blast
  from C8 y r f
  have 2: "fst (downloadMedia_ytdlp ?E demo_url True demo_world)
     = Inr (media_result ?E demo_url True [1, 2, 3] False) \<and>
     console (snd (downloadMedia_ytdlp ?E demo_url True demo_world))
     = console ?w @ [(Warn, ''Failed to save to cache:'')]"
    by blast
  from 1 2 k show ?thesis by simp
qed

section \<open>Calling downloadMedia twice\<close>

lemma init_effect:
  assumes "initCacheDir E w = (Inr (), wa)"
  shows "calls wa = calls w" and "now wa = now w"
    and "q \<noteq> CACHE_DIR E \<Longrightarrow> fs wa q = fs w q"
  using assms
  by (auto simp: initCacheDir_def io_defs access_def mkdir_def console_line_def
      split: option.splits node.splits if_splits)

lemma init_again:
  assumes "initCacheDir E w = (Inr (), wa)" and "fs w' (CACHE_DIR E) = fs wa (CACHE_DIR E)"
  shows "\<exists>wb. initCacheDir E w' = (Inr (), wb)"
  using assms
  by (auto simp: initCacheDir_def io_defs access_def mkdir_def console_line_def
      split: option.splits node.splits if_splits)

lemma lookup_effect:
  assumes "cache_lookup E u ao w = (x, w')"
  shows "fs w' = fs w" and "calls w' = calls w" and "now w' = now w"
    and "\<exists>hit. x = Inr hit"
    and "x = Inr (Some r) \<Longrightarrow>
           \<exists>b. fs w (cachedFile E u ao) = Some (File b) \<and> r = media_result E u ao b True"
  using assms
  by (auto simp: cache_lookup_def io_defs access_def readFile_def console_line_def
      split: option.splits node.splits)

lemma fs_getVideoInfo_tikwm: "fs (snd (getVideoInfo_tikwm E u w)) = fs w"
  by (cases "tikwm E u")
     (auto simp: getVideoInfo_tikwm_def encodeURIComponent_def Let_def io_defs world_defs
       split: fetch_outcome.splits parsed.splits)

lemma download_miss_tikwm_effect:
  assumes "download_miss_tikwm E u ao w = (Inr r, w1)"
  shows "r = media_result E u ao (buffer r) False \<and>
           (\<forall>q. q \<noteq> cachedFile E u ao \<longrightarrow> fs w1 q = fs w q) \<and>
           (io_fault E WriteFile (cachedFile E u ao) = None \<and> fs w (cachedFile E u ao) \<noteq> Some Dir
              \<longrightarrow> fs w1 (cachedFile E u ao) = Some (File (buffer r)))"
proof -
  obtain x wi where g: "getVideoInfo_tikwm E u w = (x, wi)" by (rule prod.exhaust)
  with fs_getVideoInfo_tikwm [of E u w] have f: "fs wi = fs w" by simp
  from assms g obtain info where x: "x = Inr info"
    by (cases x) (auto simp: download_miss_tikwm_def io_defs)
  from assms g x obtain d where c: "choose_url info ao = Some d" and ne: "d \<noteq> []"
    by (cases "choose_url info ao")
       (auto simp: download_miss_tikwm_def io_defs split: if_splits)
  obtain ms out where m: "media E d = (ms, out)" by (rule prod.exhaust)
  from assms g x c ne m obtain st tx b where o: "out = Responds st tx b" and ok: "response_ok st"
    by (cases out)
       (auto simp: download_miss_tikwm_def io_defs fetch_def outbound_def elapse_def settle_def
         split: if_splits)
  from g x have g': "getVideoInfo_tikwm E u w = (Inr info, wi)" by simp
  from m o have m': "media E d = (ms, Responds st tx b)" by simp
  from assms download_miss_tikwm_ok [OF g' c ne m' ok] f show ?thesis
    by (auto simp: cache_store_run media_result_def split: if_splits)
qed

lemma buffer_media_result [simp]: "buffer (media_result E u ao b c) = b"
  by (simp add: media_result_def)

lemma download_miss_ytdlp_effect:
  assumes "download_miss_ytdlp E u ao w = (Inr r, w1)"
  shows "r = media_result E u ao (buffer r) False \<and>
           fs w1 (CACHE_DIR E) = fs w (CACHE_DIR E) \<and>
           (io_fault E WriteFile (cachedFile E u ao) = None \<and> fs w (cachedFile E u ao) \<noteq> Some Dir
              \<longrightarrow> fs w1 (cachedFile E u ao) = Some (File (buffer r)))"
  using assms
  by (cases "ytdlp E (download_args (join tempDir (''tiktok_'' @ show_nat (now w) @ ''.%(ext)s'')) ao u)")
     (auto simp: cache_not_tmp cache_not_tmp [THEN not_sym] dir_not_tmp dir_not_tmp [THEN not_sym]
        cache_not_dir cache_not_dir [THEN not_sym]
        download_miss_ytdlp_def spawn_ytdlp_def proc_writes_def io_defs Date_now_def
        outbound_def elapse_def readFile_def unlink_def cache_store_run Let_def
      split: option.splits proc_outcome.splits if_splits node.splits)

lemma second_call:
  assumes "io_fault E Access (cachedFile E u ao) = None"
    and "io_fault E ReadFile (cachedFile E u ao) = None"
    and "fs w1 (cachedFile E u ao) = Some (File b)"
    and "initCacheDir E w1 = (Inr (), wb)"
  shows "\<exists>w2. downloadMedia_tikwm E u ao w1 = (Inr (media_result E u ao b True), w2) \<and>
               calls w2 = calls w1"
    and "\<exists>w2. downloadMedia_ytdlp E u ao w1 = (Inr (media_result E u ao b True), w2) \<and>
               calls w2 = calls w1"
proof -
  from init_effect(3) [OF assms(4), of "cachedFile E u ao"] assms(3)
  have f: "fs wb (cachedFile E u ao) = Some (File b)"
    by (simp add: cache_not_dir)
  note hit = cache_lookup_hit [OF assms(1,2) f]
  from init_effect(1) [OF assms(4)]
  show "\<exists>w2. downloadMedia_tikwm E u ao w1 = (Inr (media_result E u ao b True), w2) \<and>
               calls w2 = calls w1"
    by (simp add: downloadMedia_unfold(1) [OF assms(4)] bindM_def hit returnM_def)
  from init_effect(1) [OF assms(4)]
  show "\<exists>w2. downloadMedia_ytdlp E u ao w1 = (Inr (media_result E u ao b True), w2) \<and>
               calls w2 = calls w1"
    by (simp add: downloadMedia_unfold(2) [OF assms(4)] bindM_def hit returnM_def)
qed

lemma first_call:
  assumes usable: "cache_file_usable E w u ao"
    and first: "bindM (cache_lookup E u ao)
                  (\<lambda>hit. case hit of Some r \<Rightarrow> returnM r | None \<Rightarrow> miss) wa = (Inr r, w1)"
    and init: "initCacheDir E w = (Inr (), wa)"
    and miss: "\<And>wl. miss wl = (Inr r, w1) \<Longrightarrow>
           r = media_result E u ao (buffer r) False \<and>
           fs w1 (CACHE_DIR E) = fs wl (CACHE_DIR E) \<and>
           (io_fault E WriteFile (cachedFile E u ao) = None \<and> fs wl (cachedFile E u ao) \<noteq> Some Dir
              \<longrightarrow> fs w1 (cachedFile E u ao) = Some (File (buffer r)))"
  shows "r\<lparr>cached := True\<rparr> = media_result E u ao (buffer r) True \<and>
         fs w1 (cachedFile E u ao) = Some (File (buffer r)) \<and>
         fs w1 (CACHE_DIR E) = fs wa (CACHE_DIR E)"
proof -
  obtain y wl where look: "cache_lookup E u ao wa = (y, wl)" by (rule prod.exhaust)
  note le = lookup_effect [OF look]
  from le(4) obtain hit where y: "y = Inr hit" by blast
  from init_effect(3) [OF init, of "cachedFile E u ao"]
  have same: "fs wa (cachedFile E u ao) = fs w (cachedFile E u ao)"
    by (simp add: cache_not_dir)
  show ?thesis
  proof (cases hit)
    case (Some r')
    with first look y have r: "r = r'" and w: "w1 = wl"
      by (simp_all add: bindM_def returnM_def)
    from le(5) [of r'] y Some obtain b where
      "fs wa (cachedFile E u ao) = Some (File b)" and "r' = media_result E u ao b True"
      by blast
    with r w le(1) show ?thesis
      by (simp add: media_result_def)
  next
    case None
    with first look y have m: "miss wl = (Inr r, w1)"
      by (simp add: bindM_def)
    from usable same le(1)
    have ok: "io_fault E WriteFile (cachedFile E u ao) = None \<and> fs wl (cachedFile E u ao) \<noteq> Some Dir"
      by (simp add: cache_file_usable_def)
    from miss [OF m] ok le(1)
    have eq: "r = media_result E u ao (buffer r) False"
      and d: "fs w1 (CACHE_DIR E) = fs wa (CACHE_DIR E)"
      and f: "fs w1 (cachedFile E u ao) = Some (File (buffer r))"
      by simp_all
    have "(media_result E u ao (buffer r) False)\<lparr>cached := True\<rparr> = media_result E u ao (buffer r) True"
      by (simp add: media_result_def)
    with eq have "r\<lparr>cached := True\<rparr> = media_result E u ao (buffer r) True"
      by simp
    with d f show ?thesis by simp
  qed
qed

lemma init_of_first:
  assumes "thenM (initCacheDir E) k w = (Inr r, w1)"
  shows "\<exists>wa. initCacheDir E w = (Inr (), wa) \<and> k wa = (Inr r, w1)"
  using assms
  by (cases "initCacheDir E w"; cases "fst (initCacheDir E w)")
     (auto simp: thenM_def bindM_def)

text \<open>
  Claim C3 says that a second call with the same URL and flag always returns the first
  call's bytes with \<^verbatim>\<open>cached = true\<close> and makes no outbound call. The write to the
  cache is best-effort: when it fails, the first call still returns the bytes, nothing
  is in the cache, and the second call downloads again, with \<^verbatim>\<open>cached = false\<close> and
  two more outbound calls.
\<close>

theorem C3_failed_write_counterexample:
  "fst (downloadMedia_tikwm env_write_fault demo_url True demo_world)
     = Inr (media_result env_write_fault demo_url True [1, 2, 3] False) \<and>
   fst (downloadMedia_tikwm env_write_fault demo_url True
          (snd (downloadMedia_tikwm env_write_fault demo_url True demo_world)))
     = Inr (media_result env_write_fault demo_url True [1, 2, 3] False) \<and>
   calls (snd (downloadMedia_tikwm env_write_fault demo_url True demo_world))
     = [TikwmApi demo_url, MediaGet ''https://cdn/music''] \<and>
   calls (snd (downloadMedia_tikwm env_write_fault demo_url True
          (snd (downloadMedia_tikwm env_write_fault demo_url True demo_world))))
     = [TikwmApi demo_url, MediaGet ''https://cdn/music'',
        TikwmApi demo_url, MediaGet ''https://cdn/music'']"
  by (simp add: io_defs world_defs cache_defs tikwm_defs demo_defs)

text \<open>
  Claim C3, as amended. Provided no I/O operation on the cache file of the URL fails (no
  fault on its existence check, its read or its write, and no directory in its place):
  whenever a call of \<^verbatim>\<open>downloadMedia\<close> returns, a second call with the same URL and the
  same flag, made in the world the first call left, returns the same bytes (the same
  result, with \<^verbatim>\<open>cached = true\<close>) and leaves the record of outbound calls as it was.
  This holds in both variants, whether the first call was a hit or a download.
\<close>

theorem C3_cache_idempotence:
  assumes "cache_file_usable E w u ao"
  shows
    "(\<forall>r w1. downloadMedia_tikwm E u ao w = (Inr r, w1) \<longrightarrow>
        (\<exists>w2. downloadMedia_tikwm E u ao w1 = (Inr (r\<lparr>cached := True\<rparr>), w2) \<and>
              calls w2 = calls w1))
     \<and> (\<forall>r w1. downloadMedia_ytdlp E u ao w = (Inr r, w1) \<longrightarrow>
        (\<exists>w2. downloadMedia_ytdlp E u ao w1 = (Inr (r\<lparr>cached := True\<rparr>), w2) \<and>
              calls w2 = calls w1))"
proof -
  from assms have a: "io_fault E Access (cachedFile E u ao) = None"
    and rd: "io_fault E ReadFile (cachedFile E u ao) = None"
    by (simp_all add: cache_file_usable_def)
  have tik: "\<exists>w2. downloadMedia_tikwm E u ao w1 = (Inr (r\<lparr>cached := True\<rparr>), w2) \<and>
              calls w2 = calls w1"
    if first: "downloadMedia_tikwm E u ao w = (Inr r, w1)" for r w1
  proof -
    from first init_of_first [of E _ w r w1] obtain wa where
      init: "initCacheDir E w = (Inr (), wa)" and
      k: "bindM (cache_lookup E u ao)
            (\<lambda>hit. case hit of Some r \<Rightarrow> returnM r | None \<Rightarrow> download_miss_tikwm E u ao) wa
          = (Inr r, w1)"
      unfolding downloadMedia_tikwm_def by blast
    have miss: "r = media_result E u ao (buffer r) False \<and>
           fs w1 (CACHE_DIR E) = fs wl (CACHE_DIR E) \<and>
           (io_fault E WriteFile (cachedFile E u ao) = None \<and> fs wl (cachedFile E u ao) \<noteq> Some Dir
              \<longrightarrow> fs w1 (cachedFile E u ao) = Some (File (buffer r)))"
      if "download_miss_tikwm E u ao wl = (Inr r, w1)" for wl
      using download_miss_tikwm_effect [OF that] cache_not_dir [of E u ao]
      by (metis (no_types, lifting))
    from first_call [OF assms k init miss]
    have r: "r\<lparr>cached := True\<rparr> = media_result E u ao (buffer r) True"
      and f: "fs w1 (cachedFile E u ao) = Some (File (buffer r))"
      and d: "fs w1 (CACHE_DIR E) = fs wa (CACHE_DIR E)"
      by simp_all
    from init_again [OF init d] obtain wb where "initCacheDir E w1 = (Inr (), wb)" by blast
    from second_call(1) [OF a rd f this] r show ?thesis by simp
  qed
  have yt: "\<exists>w2. downloadMedia_ytdlp E u ao w1 = (Inr (r\<lparr>cached := True\<rparr>), w2) \<and>
              calls w2 = calls w1"
    if first: "downloadMedia_ytdlp E u ao w = (Inr r, w1)" for r w1
  proof -
    from first init_of_first [of E _ w r w1] obtain wa where
      init: "initCacheDir E w = (Inr (), wa)" and
      k: "bindM (cache_lookup E u ao)
            (\<lambda>hit. case hit of Some r \<Rightarrow> returnM r | None \<Rightarrow> download_miss_ytdlp E u ao) wa
          = (Inr r, w1)"
      unfolding downloadMedia_ytdlp_def by blast
    from first_call [OF assms k init download_miss_ytdlp_effect]
    have r: "r\<lparr>cached := True\<rparr> = media_result E u ao (buffer r) True"
      and f: "fs w1 (cachedFile E u ao) = Some (File (buffer r))"
      and d: "fs w1 (CACHE_DIR E) = fs wa (CACHE_DIR E)"
      by simp_all
    from init_again [OF init d] obtain wb where "initCacheDir E w1 = (Inr (), wb)" by blast
    from second_call(2) [OF a rd f this] r show ?thesis by simp
  qed
  show ?thesis
    apply (rule conjI)
     apply (intro allI impI)
     apply (erule tik)
    apply (intro allI impI)
    apply (erule yt)
    done
qed

theorem C3_cache_idempotence_witness:
  "fst (downloadMedia_tikwm demo_env demo_url True
          (snd (downloadMedia_tikwm demo_env demo_url True demo_world)))
     = Inr (media_result demo_env demo_url True [1, 2, 3] True) \<and>
   calls (snd (downloadMedia_tikwm demo_env demo_url True
          (snd (downloadMedia_tikwm demo_env demo_url True demo_world))))
     = [TikwmApi demo_url, MediaGet ''https://cdn/music''] \<and>
   fst (downloadMedia_ytdlp demo_env demo_url True
          (snd (downloadMedia_ytdlp demo_env demo_url True demo_world)))
     = Inr (media_result demo_env demo_url True [1, 2, 3] True) \<and>
   length (calls (snd (downloadMedia_ytdlp demo_env demo_url True
          (snd (downloadMedia_ytdlp demo_env demo_url True demo_world))))) = 1"
proof -
  let ?t = "snd (downloadMedia_tikwm demo_env demo_url True demo_world)"
  let ?y = "snd (downloadMedia_ytdlp demo_env demo_url True demo_world)"
  have usable: "cache_file_usable demo_env demo_world demo_url True"
    by (simp add: cache_file_usable_def cache_defs demo_defs)
  have t1: "downloadMedia_tikwm demo_env demo_url True demo_world
      = (Inr (media_result demo_env demo_url True [1, 2, 3] False), ?t)"
    by (simp add: io_defs world_defs cache_defs tikwm_defs demo_defs)
  have tc: "calls ?t = [TikwmApi demo_url, MediaGet ''https://cdn/music'']"
    by (simp add: io_defs world_defs cache_defs tikwm_defs demo_defs)
  have y1: "downloadMedia_ytdlp demo_env demo_url True demo_world
      = (Inr (media_result demo_env demo_url True [1, 2, 3] False), ?y)"
    by (simp add: io_defs world_defs cache_defs ytdlp_defs demo_defs show_nat.simps
        digit_char_def Let_def)
  have yc: "length (calls ?y) = 1"
    by (simp add: io_defs world_defs cache_defs ytdlp_defs demo_defs show_nat.simps
        digit_char_def Let_def)
  have up: "(media_result demo_env demo_url True [1, 2, 3] False)\<lparr>cached := True\<rparr>
      = media_result demo_env demo_url True [1, 2, 3] True"
    by (simp add: media_result_def)
  from C3_cache_idempotence [OF usable] t1 obtain w2 where
    "downloadMedia_tikwm demo_env demo_url True ?t
       = (Inr ((media_result demo_env demo_url True [1, 2, 3] False)\<lparr>cached := True\<rparr>), w2)"
    and "calls w2 = calls ?t"
    by blast
  with tc up have 1: "fst (downloadMedia_tikwm demo_env demo_url True ?t)
     = Inr (media_result demo_env demo_url True [1, 2, 3] True) \<and>
     calls (snd (downloadMedia_tikwm demo_env demo_url True ?t))
     = [TikwmApi demo_url, MediaGet ''https://cdn/music'']"
    by simp
  from C3_cache_idempotence [OF usable] y1 obtain w3 where
    "downloadMedia_ytdlp demo_env demo_url True ?y
       = (Inr ((media_result demo_env demo_url True [1, 2, 3] False)\<lparr>cached := True\<rparr>), w3)"
    and "calls w3 = calls ?y"
    by blast
  with yc up have 2: "fst (downloadMedia_ytdlp demo_env demo_url True ?y)
     = Inr (media_result demo_env demo_url True [1, 2, 3] True) \<and>
     length (calls (snd (downloadMedia_ytdlp demo_env demo_url True ?y))) = 1"
    by simp
  from 1 2 show ?thesis by simp
qed

end
